theory Spec2Isabelle
  imports Main "HOL-Library.Word" "HOL-Library.Sublist"
begin

text \<open>
  The repository forwards prompts to hosted models and post-processes the images that come
  back. This theory embeds its local logic: the slug of a prompt, the compositor that puts
  a logo and a label on an image, the two retry loops around the image provider (batch mode
  in \<^verbatim>\<open>gemini/test.py\<close>, service mode in \<^verbatim>\<open>gemini/api.py\<close>), the batch loop, and the chat and image
  endpoints of \<^verbatim>\<open>openai/api.py\<close> and \<^verbatim>\<open>chat.py\<close>. The libraries and services around it (imaging,
  provider, file system) are parameters; effects are recorded in a trace.
\<close>

section \<open>Strings and slugs\<close>

text \<open>
  Python strings are modelled as \<^typ>\<open>string\<close>: the code points below 256. On these,
  \<^verbatim>\<open>str.lower\<close> maps \<open>A-Z\<close> to \<open>a-z\<close> and the upper-case letters of Latin-1 (\<open>0xC0-0xDE\<close>
  without \<open>0xD7\<close>) to their lower-case forms, and \<^verbatim>\<open>str.strip()\<close> removes the white space of
  \<^verbatim>\<open>str.isspace\<close>: \<open>0x09-0x0D\<close>, \<open>0x1C-0x20\<close>, \<open>0x85\<close> and \<open>0xA0\<close>.
\<close>

definition py_isspace :: "char \<Rightarrow> bool" where
  "py_isspace c =
     (let n = (of_char c :: nat)
      in (9 \<le> n \<and> n \<le> 13) \<or> (28 \<le> n \<and> n \<le> 32) \<or> n = 133 \<or> n = 160)"

definition strip_chars :: "(char \<Rightarrow> bool) \<Rightarrow> string \<Rightarrow> string" where
  "strip_chars P s = rev (dropWhile P (rev (dropWhile P s)))"

definition py_strip :: "string \<Rightarrow> string" where
  "py_strip s = strip_chars py_isspace s"

definition lower_char :: "char \<Rightarrow> char" where
  "lower_char c =
     (let n = (of_char c :: nat)
      in if (65 \<le> n \<and> n \<le> 90) \<or> (192 \<le> n \<and> n \<le> 222 \<and> n \<noteq> 215)
         then char_of (n + 32) else c)"

definition py_lower :: "string \<Rightarrow> string" where
  "py_lower s = map lower_char s"

definition is_az09 :: "char \<Rightarrow> bool" where
  "is_az09 c =
     (let n = (of_char c :: nat)
      in (97 \<le> n \<and> n \<le> 122) \<or> (48 \<le> n \<and> n \<le> 57))"

definition hyphen :: char where
  "hyphen = CHR ''-''"

text \<open>
  \<^verbatim>\<open>re.sub(r"[^a-z0-9]+", "-", text)\<close>: every maximal run of characters outside \<open>[a-z0-9]\<close>
  is replaced by one hyphen.
\<close>

function sub_non_alnum :: "string \<Rightarrow> string" where
  "sub_non_alnum [] = []"
| "sub_non_alnum (c # cs) =
     (if is_az09 c then c # sub_non_alnum cs
      else hyphen # sub_non_alnum (dropWhile (\<lambda>x. \<not> is_az09 x) cs))"
  by pat_completeness auto
termination
  by (relation "measure length") (auto simp: length_dropWhile_le less_Suc_eq_le)

text \<open>
  \<^verbatim>\<open>re.sub(r"-{2,}", "-", text)\<close>: every maximal run of two or more hyphens is replaced by
  one hyphen.
\<close>

function sub_hyphen_runs :: "string \<Rightarrow> string" where
  "sub_hyphen_runs [] = []"
| "sub_hyphen_runs [c] = [c]"
| "sub_hyphen_runs (c # d # cs) =
     (if c = hyphen \<and> d = hyphen
      then hyphen # sub_hyphen_runs (dropWhile (\<lambda>x. x = hyphen) cs)
      else c # sub_hyphen_runs (d # cs))"
  by pat_completeness auto
termination
  by (relation "measure length") (auto simp: length_dropWhile_le less_Suc_eq_le le_SucI)

text \<open>The slice \<^verbatim>\<open>text[:n]\<close>; a negative \<open>n\<close> counts from the end.\<close>

definition slice_to :: "int \<Rightarrow> 'a list \<Rightarrow> 'a list" where
  "slice_to n xs = (if 0 \<le> n then take (nat n) xs else take (length xs - nat (- n)) xs)"

text \<open>
  \<^verbatim>\<open>
  def slugify(text: str, max_len: int = 40) -> str:
      text = text.strip().lower()
      text = re.sub(r"[^a-z0-9]+", "-", text)
      text = re.sub(r"-{2,}", "-", text).strip("-")
      return text[:max_len] or "prompt"
  \<close>
\<close>

definition slug_normalize :: "string \<Rightarrow> string" where
  "slug_normalize text =
     strip_chars (\<lambda>c. c = hyphen) (sub_hyphen_runs (sub_non_alnum (py_lower (py_strip text))))"

definition slugify_len :: "string \<Rightarrow> int \<Rightarrow> string" where
  "slugify_len text max_len =
     (let t = slice_to max_len (slug_normalize text)
      in if t = [] then ''prompt'' else t)"

definition slugify :: "string \<Rightarrow> string" where
  "slugify text = slugify_len text 40"

section \<open>Exceptions, log lines and effects\<close>

text \<open>
  An exception is a value: its class and its message (\<^verbatim>\<open>str(e)\<close>). Every function that can
  raise returns a sum, \<open>Inl\<close> carrying the exception. Only classes below \<^verbatim>\<open>Exception\<close> are
  modelled; these are the ones the handlers of the source catch.
\<close>

datatype exn_class =
    FileNotFoundError | AttributeError | IndexError | TypeError | ValueError
  | RuntimeError | AuthenticationError | OtherError

datatype exn = Exn exn_class string

fun exn_class_of :: "exn \<Rightarrow> exn_class" where
  "exn_class_of (Exn c m) = c"

fun exn_str :: "exn \<Rightarrow> string" where
  "exn_str (Exn c m) = m"

text \<open>A name between single quotes, as the messages of Python's exceptions show it.\<close>

definition quoted :: "string \<Rightarrow> string" where
  "quoted s = CHR 0x27 # s @ [CHR 0x27]"

type_synonym bytes = "8 word list"

text \<open>
  The lines the program prints, one constructor for each format string of the source, with
  the values the format string interpolates.
\<close>

datatype logline =
    WarnLogoNotFound string
  | WarnOverlayFailed exn
  | OkSaved string
  | StreamText string
  | InfoNoImageParts string
  | WarnRetry exn int nat int
  | ErrorFailed int string exn
  | BatchHeader string

text \<open>
  The effects of a run, in the order they happen: calls of the provider (model and message
  text), \<^verbatim>\<open>time.sleep\<close>, \<^verbatim>\<open>os.makedirs\<close>, files written, lines printed.
\<close>

datatype event =
    ProviderCall string string
  | Sleep int
  | MakeDirs string
  | FileWrite string bytes
  | Print logline

type_synonym trace = "event list"

text \<open>Truth value of an optional string (\<^verbatim>\<open>None\<close> and \<^verbatim>\<open>""\<close> are false).\<close>

fun truthy :: "string option \<Rightarrow> bool" where
  "truthy None = False"
| "truthy (Some s) = (s \<noteq> [])"

section \<open>The image compositor\<close>

text \<open>
  The imaging library is outside the repository. Its operations are the fields of a record;
  every theorem holds for every behaviour of the library. \<open>'img\<close> is an image object, \<open>'font\<close>
  a font. An in-place operation (\<^verbatim>\<open>img.alpha_composite\<close>, \<^verbatim>\<open>draw.text\<close>) returns the new image.
  Floating point is the library's too: \<open>trunc_mul v c\<close> is \<^verbatim>\<open>int(v * c)\<close> for the float literal
  \<open>c\<close>, and \<open>trunc_ratio n w h\<close> is \<^verbatim>\<open>int(n * (w / h))\<close>.

  The last field is the standard output at the one place where the compositor writes to it
  outside every \<^verbatim>\<open>try\<close>: \<open>print_overlay_failed e\<close> is the exception that
  \<^verbatim>\<open>print(f"[WARN] Overlay failed: {e}")\<close> raises, if it raises (formatting \<^verbatim>\<open>e\<close> can raise, and so
  can writing to a closed or broken stream).
\<close>

datatype fconst = F_0_10 | F_0_01 | F_0_035 | F_0_35

type_synonym rgba = "nat \<times> nat \<times> nat \<times> nat"

record ('img, 'font) pil =
  image_open_bytes :: "bytes \<Rightarrow> exn + 'img"
  image_open_path :: "string \<Rightarrow> exn + 'img"
  convert_rgba :: "'img \<Rightarrow> exn + 'img"
  img_width :: "'img \<Rightarrow> int"
  img_height :: "'img \<Rightarrow> int"
  resize_lanczos :: "'img \<Rightarrow> int \<times> int \<Rightarrow> exn + 'img"
  image_new_rgba :: "int \<times> int \<Rightarrow> rgba \<Rightarrow> exn + 'img"
  alpha_composite :: "'img \<Rightarrow> 'img \<Rightarrow> int \<times> int \<Rightarrow> exn + 'img"
  truetype :: "string \<Rightarrow> int \<Rightarrow> exn + 'font"
  load_default :: "'font"
  textbbox :: "'img \<Rightarrow> int \<times> int \<Rightarrow> string \<Rightarrow> 'font \<Rightarrow> exn + (int \<times> int \<times> int \<times> int)"
  draw_text_outline :: "'img \<Rightarrow> int \<times> int \<Rightarrow> string \<Rightarrow> 'font \<Rightarrow> exn + 'img"
  save_png_rgb :: "'img \<Rightarrow> exn + bytes"
  trunc_mul :: "int \<Rightarrow> fconst \<Rightarrow> int"
  trunc_ratio :: "int \<Rightarrow> int \<Rightarrow> int \<Rightarrow> int"
  print_overlay_failed :: "exn \<Rightarrow> exn option"

text \<open>
  \<^verbatim>\<open>
  def load_font(size: int = 40):
      for f in ["arial.ttf", "/System/Library/Fonts/Supplemental/Arial.ttf",
                "/usr/share/fonts/truetype/dejavu/DejaVuSans-Bold.ttf"]:
          try:
              return ImageFont.truetype(f, size)
          except Exception:
              continue
      return ImageFont.load_default()
  \<close>
\<close>

fun load_font_from :: "('img, 'font) pil \<Rightarrow> string list \<Rightarrow> int \<Rightarrow> 'font" where
  "load_font_from P [] sz = load_default P"
| "load_font_from P (f # fs) sz =
     (case truetype P f sz of
        Inr fnt \<Rightarrow> fnt
      | Inl e \<Rightarrow> load_font_from P fs sz)"

definition font_files :: "string list" where
  "font_files =
     [''arial.ttf'',
      ''/System/Library/Fonts/Supplemental/Arial.ttf'',
      ''/usr/share/fonts/truetype/dejavu/DejaVuSans-Bold.ttf'']"

definition load_font :: "('img, 'font) pil \<Rightarrow> int \<Rightarrow> 'font" where
  "load_font P sz = load_font_from P font_files sz"

text \<open>
  The body of the inner \<^verbatim>\<open>try\<close> of \<^verbatim>\<open>add_logo_and_text\<close>: open the logo, scale it to a tenth
  of the image's height (at least 40), and composite it into the bottom right corner. It
  returns the image as it is when the block ends and either the exception that ended it or
  the logo's position. \<^verbatim>\<open>int(max(10, img.width * 0.01))\<close> is \<open>max 10 (trunc_mul w F_0_01)\<close>:
  truncation is monotone and leaves 10 alone.
\<close>

definition place_logo ::
  "('img, 'font) pil \<Rightarrow> 'img \<Rightarrow> string \<Rightarrow> 'img \<times> (exn + int \<times> int)" where
  "place_logo P img logo_path =
     (case image_open_path P logo_path of
        Inl e \<Rightarrow> (img, Inl e)
      | Inr logo0 \<Rightarrow>
     (case convert_rgba P logo0 of
        Inl e \<Rightarrow> (img, Inl e)
      | Inr logo1 \<Rightarrow>
     (let new_h = max 40 (trunc_mul P (img_height P img) F_0_10);
          new_w = trunc_ratio P new_h (img_width P logo1) (max 1 (img_height P logo1))
      in case resize_lanczos P logo1 (new_w, new_h) of
        Inl e \<Rightarrow> (img, Inl e)
      | Inr logo \<Rightarrow>
     (let margin = max 10 (trunc_mul P (img_width P img) F_0_01);
          x = img_width P img - new_w - margin;
          y = img_height P img - new_h - margin
      in case image_new_rgba P (img_width P logo, img_height P logo) (0, 0, 0, 0) of
        Inl e \<Rightarrow> (img, Inl e)
      | Inr shadow \<Rightarrow>
     (case alpha_composite P img shadow (x + 2, y + 2) of
        Inl e \<Rightarrow> (img, Inl e)
      | Inr img1 \<Rightarrow>
     (case alpha_composite P img1 logo (x, y) of
        Inl e \<Rightarrow> (img1, Inl e)
      | Inr img2 \<Rightarrow> (img2, Inr (x, y))))))))"

text \<open>
  \<^verbatim>\<open>if logo_path: try: ... except FileNotFoundError: print(...); logo_path = None\<close>.
  The result is the image, the value of \<^verbatim>\<open>logo_path\<close> and of \<^verbatim>\<open>logo_left\<close> after the block,
  with the lines printed; any other exception leaves the block.
\<close>

definition logo_step ::
  "('img, 'font) pil \<Rightarrow> 'img \<Rightarrow> string option \<Rightarrow>
     (exn + 'img \<times> string option \<times> int option) \<times> logline list" where
  "logo_step P img logo_path =
     (case logo_path of
        None \<Rightarrow> (Inr (img, logo_path, None), [])
      | Some p \<Rightarrow>
          if p = [] then (Inr (img, logo_path, None), [])
          else
            (case place_logo P img p of
               (img', Inr (x, y)) \<Rightarrow> (Inr (img', logo_path, Some x), [])
             | (img', Inl e) \<Rightarrow>
                 if exn_class_of e = FileNotFoundError
                 then (Inr (img', None, None), [WarnLogoNotFound p])
                 else (Inl e, [])))"

text \<open>
  \<^verbatim>\<open>if phone_number:\<close> measure the label, place it left of the logo (or at the left margin),
  draw a translucent box behind it and the outlined text.
\<close>

definition label_step ::
  "('img, 'font) pil \<Rightarrow> 'img \<Rightarrow> string option \<Rightarrow> int option \<Rightarrow> string option \<Rightarrow> exn + 'img" where
  "label_step P img logo_path logo_left phone_number =
     (case phone_number of
        None \<Rightarrow> Inr img
      | Some t \<Rightarrow>
          if t = [] then Inr img
          else
            (let font = load_font P (max 28 (trunc_mul P (img_height P img) F_0_035))
             in case textbbox P img (0, 0) t font of
               Inl e \<Rightarrow> Inl e
             | Inr (l, tp, r, b) \<Rightarrow>
            (let text_w = r - l;
                 text_h = b - tp;
                 margin = max 10 (trunc_mul P (img_width P img) F_0_01);
                 x = (case logo_left of
                        Some ll \<Rightarrow> if truthy logo_path then max margin (ll - text_w - margin) else margin
                      | None \<Rightarrow> margin);
                 y = img_height P img - text_h - margin;
                 pad = trunc_mul P text_h F_0_35
             in case image_new_rgba P (text_w + 2 * pad, text_h + 2 * pad) (0, 0, 0, 120) of
               Inl e \<Rightarrow> Inl e
             | Inr bg \<Rightarrow>
            (case alpha_composite P img bg (x - pad, y - pad) of
               Inl e \<Rightarrow> Inl e
             | Inr img1 \<Rightarrow> draw_text_outline P img1 (x, y) t font))))"

text \<open>The body of the outer \<^verbatim>\<open>try\<close>: decode, logo, label, encode as an opaque PNG.\<close>

definition composite_try ::
  "('img, 'font) pil \<Rightarrow> bytes \<Rightarrow> string option \<Rightarrow> string option \<Rightarrow> (exn + bytes) \<times> logline list" where
  "composite_try P image_data logo_path phone_number =
     (case image_open_bytes P image_data of
        Inl e \<Rightarrow> (Inl e, [])
      | Inr img0 \<Rightarrow>
     (case convert_rgba P img0 of
        Inl e \<Rightarrow> (Inl e, [])
      | Inr img \<Rightarrow>
     (case logo_step P img logo_path of
        (Inl e, out) \<Rightarrow> (Inl e, out)
      | (Inr (img1, logo_path1, logo_left), out) \<Rightarrow>
     (case label_step P img1 logo_path1 logo_left phone_number of
        Inl e \<Rightarrow> (Inl e, out)
      | Inr img2 \<Rightarrow>
     (case save_png_rgb P img2 of
        Inl e \<Rightarrow> (Inl e, out)
      | Inr png \<Rightarrow> (Inr png, out))))))"

text \<open>
  \<^verbatim>\<open>
  def add_logo_and_text(image_data, logo_path=None, phone_number=None) -> bytes:
      try:
          ...
          return out.getvalue()
      except Exception as e:
          print(f"[WARN] Overlay failed: {e}")
          return image_data
  \<close>
  The handler is not inside a \<^verbatim>\<open>try\<close>: when its \<^verbatim>\<open>print\<close> raises, that exception leaves the
  function and nothing is returned. The result is the bytes returned, or the exception
  that leaves the function, and the lines printed.
\<close>

definition add_logo_and_text ::
  "('img, 'font) pil \<Rightarrow> bytes \<Rightarrow> string option \<Rightarrow> string option
     \<Rightarrow> (exn + bytes) \<times> logline list" where
  "add_logo_and_text P image_data logo_path phone_number =
     (case composite_try P image_data logo_path phone_number of
        (Inr png, out) \<Rightarrow> (Inr png, out)
      | (Inl e, out) \<Rightarrow>
          (case print_overlay_failed P e of
             Some e' \<Rightarrow> (Inl e', out)
           | None \<Rightarrow> (Inr image_data, out @ [WarnOverlayFailed e])))"

section \<open>Paths, numbers and file extensions\<close>

text \<open>\<^verbatim>\<open>os.path.join(a, b)\<close> and \<^verbatim>\<open>os.path.dirname(p)\<close> of \<^verbatim>\<open>posixpath\<close>.\<close>

definition sep :: char where
  "sep = CHR ''/''"

definition path_join :: "string \<Rightarrow> string \<Rightarrow> string" where
  "path_join a b =
     (if b \<noteq> [] \<and> hd b = sep then b
      else if a = [] \<or> last a = sep then a @ b
      else a @ [sep] @ b)"

definition rstrip_chars :: "(char \<Rightarrow> bool) \<Rightarrow> string \<Rightarrow> string" where
  "rstrip_chars P s = rev (dropWhile P (rev s))"

definition path_dirname :: "string \<Rightarrow> string" where
  "path_dirname p =
     (let head = rev (dropWhile (\<lambda>c. c \<noteq> sep) (rev p))
      in if head \<noteq> [] \<and> \<not> list_all (\<lambda>c. c = sep) head
         then rstrip_chars (\<lambda>c. c = sep) head else head)"

text \<open>\<^verbatim>\<open>str(n)\<close> for an integer, as an f-string interpolates it.\<close>

function str_nat :: "nat \<Rightarrow> string" where
  "str_nat n = (if n < 10 then [char_of (48 + n)] else str_nat (n div 10) @ [char_of (48 + n mod 10)])"
  by pat_completeness auto
termination
  by (relation "measure id") auto

declare str_nat.simps [simp del]

definition str_int :: "int \<Rightarrow> string" where
  "str_int i = (if i < 0 then CHR ''-'' # str_nat (nat (- i)) else str_nat (nat i))"

text \<open>
  \<^verbatim>\<open>
  def guess_extension(mime_type: str, default=".png") -> str:
      ext = mimetypes.guess_extension(mime_type or "") or default
      if ext == ".jpe":
          ext = ".jpg"
      return ext
  \<close>
  The table of \<^verbatim>\<open>mimetypes\<close> is Python's: it is the parameter \<open>mt\<close>.
\<close>

definition guess_extension :: "(string \<Rightarrow> string option) \<Rightarrow> string option \<Rightarrow> string" where
  "guess_extension mt mime_type =
     (let ext = (case mt (case mime_type of None \<Rightarrow> [] | Some m \<Rightarrow> m) of
                   None \<Rightarrow> ''.png''
                 | Some e \<Rightarrow> if e = [] then ''.png'' else e)
      in if ext = ''.jpe'' then ''.jpg'' else ext)"

section \<open>The provider's responses and the world\<close>

text \<open>
  A response of the provider (a chunk of a stream has the same shape): candidates, the
  content of a candidate, its parts, and the inline data of a part. A field that can be
  \<^verbatim>\<open>None\<close> is an option. \<^verbatim>\<open>hasattr(part, 'inline_data')\<close> asks whether the attribute is there:
  \<open>Absent\<close> is an object without the attribute, \<open>Present None\<close> one whose attribute is \<^verbatim>\<open>None\<close>
  (a part of text in the provider's library).
\<close>

datatype 'a attr = Absent | Present 'a

record blob =
  blob_data :: "bytes option"
  blob_mime_type :: "string option"

record part =
  part_inline_data :: "blob option attr"
  part_text :: "string option"

record content =
  content_parts :: "part list option"

record candidate =
  cand_content :: "content option"

record chunk =
  chunk_candidates :: "candidate list option"

text \<open>
  What the program reads from outside. Each reading may depend on everything that has
  happened so far (the trace). A stream yields its chunks and may then raise.
\<close>

record ('img, 'font) world =
  imaging :: "('img, 'font) pil"
  generate_content_stream :: "trace \<Rightarrow> string \<Rightarrow> string \<Rightarrow> chunk list \<times> exn option"
  generate_content :: "trace \<Rightarrow> string \<Rightarrow> string \<Rightarrow> exn + chunk"
  makedirs :: "trace \<Rightarrow> string \<Rightarrow> exn option"
  write_file :: "trace \<Rightarrow> string \<Rightarrow> bytes \<Rightarrow> exn option"
  uuid4_str :: "trace \<Rightarrow> string"
  host_url :: "trace \<Rightarrow> exn + string"
  getenv :: "string \<Rightarrow> string option"
  mime_table :: "string \<Rightarrow> string option"

text \<open>The parameters a run shares: those of \<^verbatim>\<open>generate_one_prompt\<close> and \<^verbatim>\<open>generate_image\<close>.\<close>

record config =
  cfg_model :: string
  cfg_out_prefix :: string
  cfg_out_dir :: string
  cfg_logo_path :: "string option"
  cfg_phone_number :: "string option"
  cfg_system_prompt :: "string option"

text \<open>
  \<^verbatim>\<open>build_contents\<close>: one message of role user, the system prompt (if any) in front of the
  prompt. The model keeps the text of the message.
\<close>

definition build_contents :: "string \<Rightarrow> string option \<Rightarrow> string" where
  "build_contents prompt system_prompt =
     (case system_prompt of
        None \<Rightarrow> prompt
      | Some sp \<Rightarrow>
          if sp = [] then prompt
          else sp @ [CHR 0x0A, CHR 0x0A] @ ''User request: '' @ prompt)"

section \<open>Batch mode: \<^verbatim>\<open>gemini/test.py\<close>\<close>

text \<open>
  \<^verbatim>\<open>
  def save_binary_file(file_path, data, logo_path=None, phone_number=None):
      os.makedirs(os.path.dirname(file_path) or ".", exist_ok=True)
      if logo_path or phone_number:
          data = add_logo_and_text(data, logo_path, phone_number)
      with open(file_path, "wb") as f:
          f.write(data)
      print(f"[OK] Saved: {file_path}")
  \<close>
\<close>

definition overlay_if_asked ::
  "('img, 'font) world \<Rightarrow> bytes \<Rightarrow> string option \<Rightarrow> string option
     \<Rightarrow> (exn + bytes) \<times> logline list" where
  "overlay_if_asked W image_data logo phone =
     (if truthy logo \<or> truthy phone
      then add_logo_and_text (imaging W) image_data logo phone
      else (Inr image_data, []))"

definition save_binary_file ::
  "('img, 'font) world \<Rightarrow> string \<Rightarrow> bytes \<Rightarrow> string option \<Rightarrow> string option \<Rightarrow> trace
     \<Rightarrow> exn option \<times> trace" where
  "save_binary_file W file_path image_data logo phone tr =
     (let d = path_dirname file_path;
          dir = (if d = [] then ''.'' else d)
      in case makedirs W tr dir of
           Some e \<Rightarrow> (Some e, tr)
         | None \<Rightarrow>
             (let tr1 = tr @ [MakeDirs dir];
                  res = overlay_if_asked W image_data logo phone;
                  tr2 = tr1 @ map Print (snd res)
              in case fst res of
                   Inl e \<Rightarrow> (Some e, tr2)
                 | Inr data \<Rightarrow>
                     (case write_file W tr2 file_path data of
                        Some e \<Rightarrow> (Some e, tr2)
                      | None \<Rightarrow> (None, tr2 @ [FileWrite file_path data, Print (OkSaved file_path)]))))"

text \<open>
  The parts \<^verbatim>\<open>iter_image_parts_from_stream\<close> yields: those whose inline data is there and
  holds bytes (\<^verbatim>\<open>getattr\<close> with default \<^verbatim>\<open>None\<close> reads a missing attribute as \<^verbatim>\<open>None\<close>).
\<close>

definition image_payload :: "part \<Rightarrow> (bytes \<times> string option) option" where
  "image_payload p =
     (case part_inline_data p of
        Absent \<Rightarrow> None
      | Present None \<Rightarrow> None
      | Present (Some b) \<Rightarrow>
          (case blob_data b of
             None \<Rightarrow> None
           | Some d \<Rightarrow> if d = [] then None else Some (d, blob_mime_type b)))"

text \<open>
  The file of payload number \<open>idx\<close>:
  \<^verbatim>\<open>
  ext = guess_extension(mime)
  file_name = f"{out_prefix}_{slug}_{idx}{ext}"
  file_path = os.path.join(out_dir, file_name) if out_dir else file_name
  \<close>
\<close>

definition payload_file_name :: "(string \<Rightarrow> string option) \<Rightarrow> string \<Rightarrow> string \<Rightarrow> nat \<Rightarrow> string option \<Rightarrow> string" where
  "payload_file_name mt out_prefix slug idx mime =
     out_prefix @ ''_'' @ slug @ ''_'' @ str_nat idx @ guess_extension mt mime"

definition payload_file_path :: "string \<Rightarrow> string \<Rightarrow> string" where
  "payload_file_path out_dir file_name =
     (if out_dir \<noteq> [] then path_join out_dir file_name else file_name)"

text \<open>
  The loops of \<^verbatim>\<open>iter_image_parts_from_stream\<close> with the body of the \<^verbatim>\<open>for\<close> of
  \<^verbatim>\<open>generate_one_prompt\<close>: the generator runs on demand, so the body runs at each \<^verbatim>\<open>yield\<close>,
  before the part's text is printed. The result: the exception that ended the loop (if
  any), the counter \<^verbatim>\<open>idx\<close>, the trace.
\<close>

fun stream_parts ::
  "('img, 'font) world \<Rightarrow> config \<Rightarrow> string \<Rightarrow> part list \<Rightarrow> nat \<Rightarrow> trace \<Rightarrow> exn option \<times> nat \<times> trace" where
  "stream_parts W C slug [] idx tr = (None, idx, tr)"
| "stream_parts W C slug (p # ps) idx tr =
     (case (case image_payload p of
              None \<Rightarrow> (None, idx, tr)
            | Some (d, mime) \<Rightarrow>
                (let file_name = payload_file_name (mime_table W) (cfg_out_prefix C) slug idx mime;
                     file_path = payload_file_path (cfg_out_dir C) file_name
                 in case save_binary_file W file_path d (cfg_logo_path C) (cfg_phone_number C) tr of
                      (Some e, tr1) \<Rightarrow> (Some e, idx, tr1)
                    | (None, tr1) \<Rightarrow> (None, idx + 1, tr1))) of
        (Some e, idx1, tr1) \<Rightarrow> (Some e, idx1, tr1)
      | (None, idx1, tr1) \<Rightarrow>
          stream_parts W C slug ps idx1
            (case part_text p of
               None \<Rightarrow> tr1
             | Some txt \<Rightarrow> if txt = [] then tr1 else tr1 @ [Print (StreamText (py_strip txt))]))"

definition chunk_parts :: "chunk \<Rightarrow> part list" where
  "chunk_parts ch =
     (case chunk_candidates ch of
        None \<Rightarrow> []
      | Some [] \<Rightarrow> []
      | Some (cand # _) \<Rightarrow>
          (case cand_content cand of
             None \<Rightarrow> []
           | Some c \<Rightarrow> (case content_parts c of None \<Rightarrow> [] | Some ps \<Rightarrow> ps)))"

fun stream_chunks ::
  "('img, 'font) world \<Rightarrow> config \<Rightarrow> string \<Rightarrow> chunk list \<Rightarrow> nat \<Rightarrow> trace \<Rightarrow> exn option \<times> nat \<times> trace" where
  "stream_chunks W C slug [] idx tr = (None, idx, tr)"
| "stream_chunks W C slug (ch # chs) idx tr =
     (case stream_parts W C slug (chunk_parts ch) idx tr of
        (Some e, idx1, tr1) \<Rightarrow> (Some e, idx1, tr1)
      | (None, idx1, tr1) \<Rightarrow> stream_chunks W C slug chs idx1 tr1)"


text \<open>
  The body of the \<^verbatim>\<open>try\<close> of \<^verbatim>\<open>generate_one_prompt\<close>, once: call the provider, save every image
  part of the stream, report when there was none. \<open>Some e\<close>: the exception that left the body.
\<close>

definition stream_attempt ::
  "('img, 'font) world \<Rightarrow> config \<Rightarrow> string \<Rightarrow> trace \<Rightarrow> exn option \<times> trace" where
  "stream_attempt W C prompt tr =
     (let contents = build_contents prompt (cfg_system_prompt C);
          stream = generate_content_stream W tr (cfg_model C) contents;
          tr0 = tr @ [ProviderCall (cfg_model C) contents];
          slug = slugify prompt
      in case stream_chunks W C slug (fst stream) 0 tr0 of
           (Some e, idx, tr1) \<Rightarrow> (Some e, tr1)
         | (None, idx, tr1) \<Rightarrow>
             (case snd stream of
                Some e \<Rightarrow> (Some e, tr1)
              | None \<Rightarrow> (None, if idx = 0 then tr1 @ [Print (InfoNoImageParts prompt)] else tr1)))"

text \<open>
  \<^verbatim>\<open>
  attempt = 0
  while True:
      try:
          ...
          break
      except Exception as e:
          attempt += 1
          if attempt > max_retries:
              print(f"[ERROR] Failed for prompt after {max_retries} retries: {prompt!r}\n{e}")
              break
          wait = min(8, 2 ** attempt)
          print(f"[WARN] Error: {e} - retrying in {wait}s (attempt {attempt}/{max_retries})")
          time.sleep(wait)
  \<close>
\<close>

function generate_one_prompt_from ::
  "('img, 'font) world \<Rightarrow> config \<Rightarrow> string \<Rightarrow> int \<Rightarrow> nat \<Rightarrow> trace \<Rightarrow> trace" where
  "generate_one_prompt_from W C prompt max_retries attempt tr =
     (case stream_attempt W C prompt tr of
        (None, tr1) \<Rightarrow> tr1
      | (Some e, tr1) \<Rightarrow>
          if int (attempt + 1) > max_retries
          then tr1 @ [Print (ErrorFailed max_retries prompt e)]
          else generate_one_prompt_from W C prompt max_retries (attempt + 1)
                 (tr1 @ [Print (WarnRetry e (min 8 (2 ^ (attempt + 1))) (attempt + 1) max_retries),
                         Sleep (min 8 (2 ^ (attempt + 1)))]))"
  by pat_completeness auto
termination
  by (relation "measure (\<lambda>(W, C, prompt, max_retries, attempt, tr). nat (max_retries + 1) - attempt)") auto

declare generate_one_prompt_from.simps [simp del]

definition generate_one_prompt ::
  "('img, 'font) world \<Rightarrow> config \<Rightarrow> string \<Rightarrow> int \<Rightarrow> trace \<Rightarrow> trace" where
  "generate_one_prompt W C prompt max_retries tr = generate_one_prompt_from W C prompt max_retries 0 tr"



section \<open>Service mode: \<^verbatim>\<open>gemini/api.py\<close>\<close>

text \<open>A JSON object the service returns: an association list, as the \<^verbatim>\<open>dict\<close> literal has it.\<close>

datatype jval = JNull | JBool bool | JStr string

type_synonym result = "(string \<times> jval) list"

text \<open>
  \<^verbatim>\<open>
  def save_image(data, logo_path=None, phone_number=None, out_dir="outputs") -> str:
      os.makedirs(out_dir, exist_ok=True)
      unique_id = str(uuid.uuid4())[:8]
      file_name = f"image_{unique_id}.png"
      file_path = os.path.join(out_dir, file_name)
      if logo_path or phone_number:
          data = add_logo_and_text(data, logo_path, phone_number)
      with open(file_path, "wb") as f:
          f.write(data)
      return file_path
  \<close>
\<close>

definition save_image ::
  "('img, 'font) world \<Rightarrow> bytes \<Rightarrow> string option \<Rightarrow> string option \<Rightarrow> string \<Rightarrow> trace
     \<Rightarrow> (exn + string) \<times> trace" where
  "save_image W image_data logo phone out_dir tr =
     (case makedirs W tr out_dir of
        Some e \<Rightarrow> (Inl e, tr)
      | None \<Rightarrow>
          (let tr1 = tr @ [MakeDirs out_dir];
               unique_id = take 8 (uuid4_str W tr1);
               file_name = ''image_'' @ unique_id @ ''.png'';
               file_path = path_join out_dir file_name;
               res = overlay_if_asked W image_data logo phone;
               tr2 = tr1 @ map Print (snd res)
           in case fst res of
                Inl e \<Rightarrow> (Inl e, tr2)
              | Inr data \<Rightarrow>
                  (case write_file W tr2 file_path data of
                     Some e \<Rightarrow> (Inl e, tr2)
                   | None \<Rightarrow> (Inr file_path, tr2 @ [FileWrite file_path data]))))"

text \<open>
  \<^verbatim>\<open>response.candidates[0].content.parts\<close>, with the exception each step raises on \<^verbatim>\<open>None\<close>
  or on an empty list.
\<close>

definition response_parts :: "chunk \<Rightarrow> exn + part list" where
  "response_parts r =
     (case chunk_candidates r of
        None \<Rightarrow> Inl (Exn TypeError (quoted ''NoneType'' @ '' object is not subscriptable''))
      | Some [] \<Rightarrow> Inl (Exn IndexError ''list index out of range'')
      | Some (cand # _) \<Rightarrow>
          (case cand_content cand of
             None \<Rightarrow>
               Inl (Exn AttributeError
                      (quoted ''NoneType'' @ '' object has no attribute '' @ quoted ''parts''))
           | Some c \<Rightarrow>
               (case content_parts c of
                  None \<Rightarrow> Inl (Exn TypeError (quoted ''NoneType'' @ '' object is not iterable''))
                | Some ps \<Rightarrow> Inr ps)))"

definition success_result :: "string \<Rightarrow> string \<Rightarrow> result" where
  "success_result file_path image_url =
     [(''success'', JBool True), (''image_path'', JStr file_path), (''image_url'', JStr image_url)]"

definition failure_result :: "string \<Rightarrow> result" where
  "failure_result msg = [(''success'', JBool False), (''error'', JStr msg)]"

text \<open>
  \<^verbatim>\<open>
  for part in response.candidates[0].content.parts:
      if hasattr(part, 'inline_data') and part.inline_data.data:
          image_data = part.inline_data.data
          file_path = save_image(image_data, logo_path, phone_number, out_dir)
          base_url = request.host_url.rstrip('/')
          image_url = f"{base_url}/{file_path}"
          return {"success": True, "image_path": file_path, "image_url": image_url}
  return {"success": False, "error": "No image generated in response"}
  \<close>
  \<^verbatim>\<open>part.inline_data.data\<close> raises \<^verbatim>\<open>AttributeError\<close> when \<^verbatim>\<open>part.inline_data\<close> is \<^verbatim>\<open>None\<close>, with the
  message \<^verbatim>\<open>'NoneType' object has no attribute 'data'\<close>.
\<close>

fun response_loop ::
  "('img, 'font) world \<Rightarrow> config \<Rightarrow> part list \<Rightarrow> trace \<Rightarrow> (exn + result) \<times> trace" where
  "response_loop W C [] tr = (Inr (failure_result ''No image generated in response''), tr)"
| "response_loop W C (p # ps) tr =
     (case part_inline_data p of
        Absent \<Rightarrow> response_loop W C ps tr
      | Present None \<Rightarrow>
          (Inl (Exn AttributeError
                  (quoted ''NoneType'' @ '' object has no attribute '' @ quoted ''data'')), tr)
      | Present (Some b) \<Rightarrow>
          (case blob_data b of
             None \<Rightarrow> response_loop W C ps tr
           | Some d \<Rightarrow>
               if d = [] then response_loop W C ps tr
               else
                 (case save_image W d (cfg_logo_path C) (cfg_phone_number C) (cfg_out_dir C) tr of
                    (Inl e, tr1) \<Rightarrow> (Inl e, tr1)
                  | (Inr file_path, tr1) \<Rightarrow>
                      (case host_url W tr1 of
                         Inl e \<Rightarrow> (Inl e, tr1)
                       | Inr h \<Rightarrow>
                           (Inr (success_result file_path
                                   (rstrip_chars (\<lambda>c. c = sep) h @ [sep] @ file_path)), tr1)))))"

text \<open>The body of the \<^verbatim>\<open>try\<close> of \<^verbatim>\<open>generate_image\<close>, once.\<close>

definition response_attempt ::
  "('img, 'font) world \<Rightarrow> config \<Rightarrow> string \<Rightarrow> trace \<Rightarrow> (exn + result) \<times> trace" where
  "response_attempt W C prompt tr =
     (let contents = build_contents prompt (cfg_system_prompt C);
          tr0 = tr @ [ProviderCall (cfg_model C) contents]
      in case generate_content W tr (cfg_model C) contents of
           Inl e \<Rightarrow> (Inl e, tr0)
         | Inr response \<Rightarrow>
             (case response_parts response of
                Inl e \<Rightarrow> (Inl e, tr0)
              | Inr ps \<Rightarrow> response_loop W C ps tr0))"

text \<open>
  \<^verbatim>\<open>
  attempt = 0
  while True:
      try:
          ...
      except Exception as e:
          attempt += 1
          if attempt > max_retries:
              return {"success": False, "error": f"Failed after {max_retries} retries: {str(e)}"}
          wait = min(8, 2 ** attempt)
          print(f"[WARN] Error: {e} - retrying in {wait}s (attempt {attempt}/{max_retries})")
          time.sleep(wait)
  \<close>
\<close>

function generate_image_from ::
  "('img, 'font) world \<Rightarrow> config \<Rightarrow> string \<Rightarrow> int \<Rightarrow> nat \<Rightarrow> trace \<Rightarrow> result \<times> trace" where
  "generate_image_from W C prompt max_retries attempt tr =
     (case response_attempt W C prompt tr of
        (Inr r, tr1) \<Rightarrow> (r, tr1)
      | (Inl e, tr1) \<Rightarrow>
          if int (attempt + 1) > max_retries
          then (failure_result (''Failed after '' @ str_int max_retries @ '' retries: '' @ exn_str e), tr1)
          else generate_image_from W C prompt max_retries (attempt + 1)
                 (tr1 @ [Print (WarnRetry e (min 8 (2 ^ (attempt + 1))) (attempt + 1) max_retries),
                         Sleep (min 8 (2 ^ (attempt + 1)))]))"
  by pat_completeness auto
termination
  by (relation "measure (\<lambda>(W, C, prompt, max_retries, attempt, tr). nat (max_retries + 1) - attempt)") auto

declare generate_image_from.simps [simp del]

definition generate_image ::
  "('img, 'font) world \<Rightarrow> config \<Rightarrow> string \<Rightarrow> int \<Rightarrow> trace \<Rightarrow> result \<times> trace" where
  "generate_image W C prompt max_retries tr = generate_image_from W C prompt max_retries 0 tr"

section \<open>The chat and image endpoints: \<^verbatim>\<open>openai/api.py\<close> and \<^verbatim>\<open>chat.py\<close>\<close>

text \<open>
  A message of the conversation, \<^verbatim>\<open>{'role': r, 'content': c}\<close>; the content of an answer
  can be \<^verbatim>\<open>None\<close>. The client: a chat completion returns the messages of its choices, an
  image generation the URLs of its data.
\<close>

record message =
  msg_role :: string
  msg_content :: "string option"

record openai_client =
  chat_completions_create :: "trace \<Rightarrow> message list \<Rightarrow> exn + message list"
  images_generate :: "trace \<Rightarrow> string \<Rightarrow> exn + string option list"

definition user_message :: "string \<Rightarrow> message" where
  "user_message m = \<lparr>msg_role = ''user'', msg_content = Some m\<rparr>"

definition assistant_message :: "string option \<Rightarrow> message" where
  "assistant_message c = \<lparr>msg_role = ''assistant'', msg_content = c\<rparr>"

definition jstr_opt :: "string option \<Rightarrow> jval" where
  "jstr_opt v = (case v of None \<Rightarrow> JNull | Some s \<Rightarrow> JStr s)"

text \<open>
  \<^verbatim>\<open>
  @app.post("/chat")
  async def chat(chat_request: ChatRequest):
      chat_log.append({'role': 'user', 'content': chat_request.message})
      try:
          response = openai.chat.completions.create(model='gpt-4o', messages=chat_log, temperature=0.6)
          bot_response = response.choices[0].message.content
          chat_log.append({'role': 'assistant', 'content': bot_response})
          return {"response": bot_response}
      except Exception as e:
          return {"error": str(e)}
  \<close>
  The state is the shared list \<^verbatim>\<open>chat_log\<close> and the trace.
\<close>

definition chat :: "openai_client \<Rightarrow> string \<Rightarrow> message list \<times> trace \<Rightarrow> result \<times> message list \<times> trace" where
  "chat client msg st =
     (let chat_log1 = fst st @ [user_message msg];
          tr1 = snd st @ [ProviderCall ''gpt-4o'' msg]
      in case chat_completions_create client (snd st) chat_log1 of
           Inl e \<Rightarrow> ([(''error'', JStr (exn_str e))], chat_log1, tr1)
         | Inr [] \<Rightarrow> ([(''error'', JStr ''list index out of range'')], chat_log1, tr1)
         | Inr (m # _) \<Rightarrow>
             ([(''response'', jstr_opt (msg_content m))],
              chat_log1 @ [assistant_message (msg_content m)], tr1))"

text \<open>
  The form handler of \<^verbatim>\<open>chat.py\<close> (\<^verbatim>\<open>@app.post("/")\<close>) has no \<^verbatim>\<open>try\<close>: an exception of the provider
  leaves the handler. Its state has \<^verbatim>\<open>chat_responses\<close> too; the page rendered from it is the
  result.
\<close>

definition chat_form ::
  "openai_client \<Rightarrow> string \<Rightarrow> message list \<times> string option list \<times> trace
     \<Rightarrow> (exn + string option list) \<times> message list \<times> string option list \<times> trace" where
  "chat_form client user_input st =
     (case st of (chat_log, chat_responses, tr) \<Rightarrow>
     (let chat_log1 = chat_log @ [user_message user_input];
          chat_responses1 = chat_responses @ [Some user_input];
          tr1 = tr @ [ProviderCall ''gpt-4o'' user_input]
      in case chat_completions_create client tr chat_log1 of
           Inl e \<Rightarrow> (Inl e, chat_log1, chat_responses1, tr1)
         | Inr [] \<Rightarrow> (Inl (Exn IndexError ''list index out of range''), chat_log1, chat_responses1, tr1)
         | Inr (m # _) \<Rightarrow>
             (Inr (chat_responses1 @ [msg_content m]),
              chat_log1 @ [assistant_message (msg_content m)],
              chat_responses1 @ [msg_content m], tr1)))"








section \<open>Observations on a trace\<close>

fun sleeps :: "trace \<Rightarrow> int list" where
  "sleeps [] = []"
| "sleeps (Sleep n # es) = n # sleeps es"
| "sleeps (e # es) = sleeps es"

fun provider_calls :: "trace \<Rightarrow> nat" where
  "provider_calls [] = 0"
| "provider_calls (ProviderCall m c # es) = Suc (provider_calls es)"
| "provider_calls (e # es) = provider_calls es"

fun writes :: "trace \<Rightarrow> (string \<times> bytes) list" where
  "writes [] = []"
| "writes (FileWrite p d # es) = (p, d) # writes es"
| "writes (e # es) = writes es"

fun prints :: "trace \<Rightarrow> logline list" where
  "prints [] = []"
| "prints (Print l # es) = l # prints es"
| "prints (e # es) = prints es"

text \<open>
  Calls of the provider and sleeps in the order they happen: \<open>None\<close> is a call, \<open>Some d\<close> a
  sleep of \<open>d\<close>. A run of a retry loop that retries \<open>n\<close> times after attempt number \<open>a\<close> is to
  show the first call and then, for each retry \<open>k\<close>, the sleep of \<open>min 8 (2 ^ k)\<close> followed by
  the call.
\<close>

fun schedule :: "trace \<Rightarrow> int option list" where
  "schedule [] = []"
| "schedule (ProviderCall m c # es) = None # schedule es"
| "schedule (Sleep d # es) = Some d # schedule es"
| "schedule (e # es) = schedule es"

definition retry_schedule :: "nat \<Rightarrow> nat \<Rightarrow> int option list" where
  "retry_schedule a n =
     None # concat (map (\<lambda>k. [Some (min 8 (2 ^ k)), None]) [Suc a ..< Suc a + n])"




section \<open>A small imaging library and world for the examples\<close>

text \<open>
  An image is its width, its height and the positions at which something was drawn on it;
  the encoder writes a fixed header and the positions. Decoding fails on the empty byte
  string; the only image file is \<open>logo.png\<close>, the file \<open>broken.png\<close> is no image; no font file
  is found.
\<close>

definition demo_pil :: "(int \<times> int \<times> (int \<times> int) list, unit) pil" where
  "demo_pil =
     \<lparr>image_open_bytes = (\<lambda>d. if d = [] then Inl (Exn OtherError ''cannot identify image file'')
                               else Inr (1024, 1024, [])),
      image_open_path = (\<lambda>p. if p = ''logo.png'' then Inr (200, 100, [])
                              else if p = ''broken.png''
                                then Inl (Exn OtherError ''cannot identify image file'')
                              else Inl (Exn FileNotFoundError ''No such file or directory'')),
      convert_rgba = Inr,
      img_width = fst,
      img_height = (\<lambda>i. fst (snd i)),
      resize_lanczos = (\<lambda>i (w, h). if w \<le> 0 \<or> h \<le> 0 then Inl (Exn ValueError ''height and width must be > 0'')
                                     else Inr (w, h, snd (snd i))),
      image_new_rgba = (\<lambda>(w, h) c. Inr (w, h, [])),
      alpha_composite = (\<lambda>i src (x, y). if x < 0 \<or> y < 0 then Inl (Exn ValueError ''Destination must be non-negative'')
                                          else Inr (fst i, fst (snd i), snd (snd i) @ [(x, y)])),
      truetype = (\<lambda>f sz. Inl (Exn OtherError ''cannot open resource'')),
      load_default = (),
      textbbox = (\<lambda>i xy t f. Inr (0, 0, 10 * int (length t), 20)),
      draw_text_outline = (\<lambda>i (x, y) t f. Inr (fst i, fst (snd i), snd (snd i) @ [(x, y)])),
      save_png_rgb = (\<lambda>i. Inr ([137, 80, 78, 71] @ concat (map (\<lambda>(x, y). [word_of_int x, word_of_int y]) (snd (snd i))))),
      trunc_mul = (\<lambda>v c. case c of F_0_10 \<Rightarrow> v div 10 | F_0_01 \<Rightarrow> v div 100
                              | F_0_035 \<Rightarrow> (v * 35) div 1000 | F_0_35 \<Rightarrow> (v * 35) div 100),
      trunc_ratio = (\<lambda>n w h. (n * w) div h),
      print_overlay_failed = (\<lambda>e. None)\<rparr>"

text \<open>The same library in a process whose standard output is closed.\<close>

definition closed_stdout_pil :: "(int \<times> int \<times> (int \<times> int) list, unit) pil" where
  "closed_stdout_pil =
     demo_pil\<lparr>print_overlay_failed := (\<lambda>e. Some (Exn ValueError ''I/O operation on closed file.''))\<rparr>"

text \<open>
  A world whose provider answers by the message only, whose file system never fails, and
  whose table of media types knows PNG and JPEG; the parts and responses the examples use.
\<close>

definition demo_world ::
  "(string \<Rightarrow> chunk list \<times> exn option) \<Rightarrow> (string \<Rightarrow> exn + chunk)
     \<Rightarrow> (int \<times> int \<times> (int \<times> int) list, unit) world" where
  "demo_world stream response =
     \<lparr>imaging = demo_pil,
      generate_content_stream = (\<lambda>tr model contents. stream contents),
      generate_content = (\<lambda>tr model contents. response contents),
      makedirs = (\<lambda>tr dir. None),
      write_file = (\<lambda>tr path d. None),
      uuid4_str = (\<lambda>tr. ''1b4e28ba-2fa1-11d2-883f-0016d3cca427''),
      host_url = (\<lambda>tr. Inr ''http://localhost:8080/''),
      getenv = (\<lambda>k. if k = ''GOOGLE_API_KEY'' then Some ''secret'' else None),
      mime_table = (\<lambda>m. if m = ''image/png'' then Some ''.png''
                         else if m = ''image/jpeg'' then Some ''.jpg'' else None)\<rparr>"

definition demo_config :: config where
  "demo_config =
     \<lparr>cfg_model = ''gemini-2.0-flash-preview-image-generation'',
      cfg_out_prefix = ''iphone_campaign'',
      cfg_out_dir = ''outputs'',
      cfg_logo_path = None,
      cfg_phone_number = None,
      cfg_system_prompt = None\<rparr>"

definition image_part :: "bytes \<Rightarrow> string option \<Rightarrow> part" where
  "image_part d mime =
     \<lparr>part_inline_data = Present (Some \<lparr>blob_data = Some d, blob_mime_type = mime\<rparr>),
      part_text = None\<rparr>"

definition text_part :: "string \<Rightarrow> part" where
  "text_part t = \<lparr>part_inline_data = Present None, part_text = Some t\<rparr>"

definition response_of :: "part list \<Rightarrow> chunk" where
  "response_of ps = \<lparr>chunk_candidates = Some [\<lparr>cand_content = Some \<lparr>content_parts = Some ps\<rparr>\<rparr>]\<rparr>"

definition unavailable :: exn where
  "unavailable = Exn OtherError ''503 UNAVAILABLE''"


definition failing_world :: "exn \<Rightarrow> (int \<times> int \<times> (int \<times> int) list, unit) world" where
  "failing_world e = demo_world (\<lambda>c. ([], Some e)) (\<lambda>c. Inl e)"

definition failing_client :: "exn \<Rightarrow> openai_client" where
  "failing_client e =
     \<lparr>chat_completions_create = (\<lambda>tr msgs. Inl e), images_generate = (\<lambda>tr q. Inl e)\<rparr>"

definition text_then_image :: chunk where
  "text_then_image =
     response_of [text_part ''Here is your image'', image_part [1, 2, 3] (Some ''image/png'')]"

definition system_message :: message where
  "system_message =
     \<lparr>msg_role = ''system'',
      msg_content = Some ''You are a helpful and creative assistant that helps users generate beautiful images.''\<rparr>"





section \<open>The shape of a generation result\<close>

text \<open>
  A success carries a non-empty \<open>image_path\<close> and no \<open>error\<close>; a failure carries a non-empty
  \<open>error\<close> and no \<open>image_path\<close>.
\<close>

definition is_success_result :: "result \<Rightarrow> bool" where
  "is_success_result r =
     (map_of r ''success'' = Some (JBool True)
      \<and> (case map_of r ''image_path'' of Some (JStr fp) \<Rightarrow> fp \<noteq> [] | _ \<Rightarrow> False)
      \<and> map_of r ''error'' = None)"

definition is_failure_result :: "result \<Rightarrow> bool" where
  "is_failure_result r =
     (map_of r ''success'' = Some (JBool False)
      \<and> (case map_of r ''error'' of Some (JStr msg) \<Rightarrow> msg \<noteq> [] | _ \<Rightarrow> False)
      \<and> map_of r ''image_path'' = None)"

section \<open>Properties of the slug\<close>

text \<open>
  The two substitutions leave only characters of \<open>[a-z0-9]\<close> and hyphens, and no run of
  hyphens; stripping and slicing keep contiguous parts of the text.
\<close>

lemma set_sub_non_alnum: "set (sub_non_alnum s) \<subseteq> {c. is_az09 c} \<union> {hyphen}"
  by (induction s rule: sub_non_alnum.induct) auto

lemma set_sub_hyphen_runs: "set (sub_hyphen_runs s) \<subseteq> set s"
proof (induction s rule: sub_hyphen_runs.induct)
  case (3 c d cs)
  have "set (dropWhile (\<lambda>x. x = hyphen) cs) \<subseteq> set cs"
    by (auto dest: set_dropWhileD)
  with 3 show ?case by auto
qed simp_all

lemma set_strip_chars: "set (strip_chars P s) \<subseteq> set s"
  unfolding strip_chars_def by (auto dest!: set_dropWhileD)

lemma set_slice_to: "set (slice_to n s) \<subseteq> set s"
  unfolding slice_to_def by (auto dest: in_set_takeD)

lemma set_slug_normalize: "set (slug_normalize t) \<subseteq> {c. is_az09 c} \<union> {hyphen}"
  unfolding slug_normalize_def
  using set_strip_chars set_sub_hyphen_runs set_sub_non_alnum by blast

lemma hd_sub_hyphen_runs: "s \<noteq> [] \<Longrightarrow> hd (sub_hyphen_runs s) = hd s"
  by (induction s rule: sub_hyphen_runs.induct) auto

lemma sub_hyphen_runs_Nil: "sub_hyphen_runs s = [] \<longleftrightarrow> s = []"
  by (induction s rule: sub_hyphen_runs.induct) auto

lemma no_runs_sub_hyphen_runs: "\<not> sublist [hyphen, hyphen] (sub_hyphen_runs s)"
proof (induction s rule: sub_hyphen_runs.induct)
  case (3 c d cs)
  show ?case
  proof (cases "c = hyphen \<and> d = hyphen")
    case True
    let ?r = "dropWhile (\<lambda>x. x = hyphen) cs"
    have ih: "\<not> sublist [hyphen, hyphen] (sub_hyphen_runs ?r)" using 3 True by simp
    have "?r \<noteq> [] \<Longrightarrow> hd ?r \<noteq> hyphen" using hd_dropWhile[of "\<lambda>x. x = hyphen" cs] by simp
    then have "sub_hyphen_runs ?r \<noteq> [] \<Longrightarrow> hd (sub_hyphen_runs ?r) \<noteq> hyphen"
      by (simp add: hd_sub_hyphen_runs sub_hyphen_runs_Nil)
    then have "\<not> prefix [hyphen, hyphen] (hyphen # sub_hyphen_runs ?r)"
      by (cases "sub_hyphen_runs ?r") auto
    moreover have "sub_hyphen_runs (c # d # cs) = hyphen # sub_hyphen_runs ?r"
      using True by simp
    ultimately show ?thesis using ih by (simp only: sublist_Cons_right) simp
  next
    case False
    then have ih: "\<not> sublist [hyphen, hyphen] (sub_hyphen_runs (d # cs))" using 3 by simp
    have "hd (sub_hyphen_runs (d # cs)) = d" by (simp add: hd_sub_hyphen_runs)
    moreover have "sub_hyphen_runs (d # cs) \<noteq> []" by (simp add: sub_hyphen_runs_Nil)
    ultimately have "\<not> prefix [hyphen, hyphen] (c # sub_hyphen_runs (d # cs))"
      using False by (cases "sub_hyphen_runs (d # cs)") auto
    moreover have "sub_hyphen_runs (c # d # cs) = c # sub_hyphen_runs (d # cs)"
      using False by auto
    ultimately show ?thesis using ih by (simp only: sublist_Cons_right) simp
  qed
qed (simp_all add: sublist_Cons_right)

lemma sublist_strip_chars: "sublist (strip_chars P s) s"
proof -
  have "suffix (dropWhile P s) s" by (rule suffix_dropWhile)
  moreover have "prefix (rev (dropWhile P (rev (dropWhile P s)))) (dropWhile P s)"
    using suffix_dropWhile[of P "rev (dropWhile P s)"] by (simp add: suffix_to_prefix)
  ultimately show ?thesis unfolding strip_chars_def
    by (blast intro: prefix_imp_sublist suffix_imp_sublist sublist_order.order_trans)
qed

lemma sublist_slice_to: "sublist (slice_to n s) s"
  unfolding slice_to_def by (simp add: sublist_take)

lemma no_runs_slug_normalize: "\<not> sublist [hyphen, hyphen] (slug_normalize t)"
  unfolding slug_normalize_def
  using no_runs_sub_hyphen_runs sublist_strip_chars sublist_order.order_trans by blast

lemma hd_strip_chars: "strip_chars P s \<noteq> [] \<Longrightarrow> \<not> P (hd (strip_chars P s))"
proof -
  assume ne: "strip_chars P s \<noteq> []"
  let ?d = "dropWhile P s"
  have p: "prefix (strip_chars P s) ?d"
    unfolding strip_chars_def using suffix_dropWhile[of P "rev ?d"] by (simp add: suffix_to_prefix)
  then have "?d \<noteq> []" using ne by (metis prefix_Nil)
  then have "\<not> P (hd ?d)" by (rule hd_dropWhile)
  moreover have "hd (strip_chars P s) = hd ?d" using p ne by (auto simp: prefix_def)
  ultimately show ?thesis by simp
qed

lemma hyphen_not_az09: "\<not> is_az09 hyphen"
  by (simp add: is_az09_def hyphen_def)

lemma prompt_chars: "set ''prompt'' \<subseteq> {c. is_az09 c}"
  by (simp add: is_az09_def)

text \<open>
  What every slug satisfies: it is not empty, its characters are in \<open>[a-z0-9-]\<close> (so it is
  lower-case), it has no two hyphens in a row, it does not start with a hyphen, it has at
  most 40 characters, and it is \<open>prompt\<close> when nothing is left of the text.
\<close>

lemma prompt_shape:
  "list_all (\<lambda>c. is_az09 c \<or> c = hyphen) ''prompt''"
  "\<not> sublist [hyphen, hyphen] ''prompt''"
  "hd ''prompt'' \<noteq> hyphen"
  by code_simp+

lemma slugify_shape:
  "slugify text \<noteq> []
   \<and> list_all (\<lambda>c. is_az09 c \<or> c = hyphen) (slugify text)
   \<and> \<not> sublist [hyphen, hyphen] (slugify text)
   \<and> hd (slugify text) \<noteq> hyphen
   \<and> length (slugify text) \<le> 40
   \<and> (slug_normalize text = [] \<longrightarrow> slugify text = ''prompt'')"
proof -
  let ?n = "slug_normalize text"
  let ?t = "slice_to 40 ?n"
  have sl: "slugify text = (if ?t = [] then ''prompt'' else ?t)"
    by (simp add: slugify_def slugify_len_def Let_def)
  have t40: "?t = take 40 ?n" by (simp add: slice_to_def)
  show ?thesis
  proof (cases "?t = []")
    case True
    then have s: "slugify text = ''prompt''" using sl by simp
    show ?thesis unfolding s using prompt_shape by simp
  next
    case False
    then have s: "slugify text = ?t" using sl by simp
    have ne: "?n \<noteq> []" using False t40 by auto
    have "set ?t \<subseteq> {c. is_az09 c} \<union> {hyphen}"
      using set_slice_to[where n=40 and s="?n"] set_slug_normalize[of "text"] by (rule subset_trans)
    then have a: "list_all (\<lambda>c. is_az09 c \<or> c = hyphen) ?t"
      unfolding list_all_iff by blast
    have b: "\<not> sublist [hyphen, hyphen] ?t"
      using no_runs_slug_normalize[of "text"] sublist_slice_to[where n=40 and s="?n"]
      by (blast intro: sublist_order.order_trans)
    have "hd ?n \<noteq> hyphen"
      using hd_strip_chars[where P="\<lambda>c. c = hyphen"] ne unfolding slug_normalize_def by simp
    moreover have "hd ?t = hd ?n" using ne t40 by (cases ?n) auto
    ultimately have c: "hd ?t \<noteq> hyphen" by simp
    have d: "length ?t \<le> 40" using t40 by simp
    have e: "slug_normalize text = [] \<longrightarrow> ?t = ''prompt''" using ne by simp
    show ?thesis unfolding s using False a b c d e by blast
  qed
qed

text \<open>
  A slug that was not cut (the normalized text has at most 40 characters) does not end with
  a hyphen either.
\<close>

lemma last_strip_chars: "strip_chars P s \<noteq> [] \<Longrightarrow> \<not> P (last (strip_chars P s))"
proof -
  assume ne: "strip_chars P s \<noteq> []"
  let ?r = "dropWhile P (rev (dropWhile P s))"
  have "?r \<noteq> []" using ne by (simp add: strip_chars_def)
  then have "\<not> P (hd ?r)" by (rule hd_dropWhile)
  moreover have "last (strip_chars P s) = hd ?r"
    using \<open>?r \<noteq> []\<close> by (simp add: strip_chars_def last_rev)
  ultimately show ?thesis by simp
qed

lemma slugify_short_no_trailing_hyphen:
  assumes "length (slug_normalize text) \<le> 40"
  shows "last (slugify text) \<noteq> hyphen"
proof (cases "slug_normalize text = []")
  case True
  then have "slugify text = ''prompt''"
    by (simp add: slugify_def slugify_len_def slice_to_def)
  then show ?thesis by (simp add: hyphen_def)
next
  case False
  with assms have s: "slugify text = slug_normalize text"
    by (simp add: slugify_def slugify_len_def slice_to_def)
  from False have "last (slug_normalize text) \<noteq> hyphen"
    using last_strip_chars[where P="\<lambda>c. c = hyphen"] unfolding slug_normalize_def by simp
  with s show ?thesis by simp
qed

text \<open>
  Claim C3. A slug is non-empty, lower-case, over \<open>[a-z0-9-]\<close>, without consecutive hyphens,
  at most 40 characters long, and has no hyphen at either end. The code strips the hyphens
  at the ends before it cuts the text to 40 characters, so the cut can end on a hyphen:
  here the 40th character of the normalized prompt is the hyphen after \<open>pastel\<close>.
\<close>

theorem slugify_trailing_hyphen:
  "slugify ''Spring Sale poster for iPhone 16, pastel flowers and soft light''
     = ''spring-sale-poster-for-iphone-16-pastel-''
   \<and> last (slugify ''Spring Sale poster for iPhone 16, pastel flowers and soft light'') = hyphen"
  by code_simp

section \<open>The compositor and its caller\<close>

text \<open>
  Claim C1, as stated: \<^verbatim>\<open>add_logo_and_text\<close> never raises to its caller, for every input. The
  body is inside \<^verbatim>\<open>try/except Exception\<close>, but the handler prints its warning before it returns
  the bytes, and nothing protects that \<^verbatim>\<open>print\<close>. With a standard output that is closed, bytes
  that do not decode make the body raise, the handler's \<^verbatim>\<open>print\<close> raises \<^verbatim>\<open>ValueError\<close>, and that
  exception leaves the function: the caller gets no bytes. The save that called the
  compositor ends with the same exception and writes no file.
\<close>

theorem add_logo_and_text_print_raises:
  "image_open_bytes closed_stdout_pil [] = Inl (Exn OtherError ''cannot identify image file'')
   \<and> print_overlay_failed closed_stdout_pil (Exn OtherError ''cannot identify image file'')
       = Some (Exn ValueError ''I/O operation on closed file.'')
   \<and> add_logo_and_text closed_stdout_pil [] (Some ''logo.png'') (Some ''0909 123 456'')
       = (Inl (Exn ValueError ''I/O operation on closed file.''), [])
   \<and> save_binary_file
        ((demo_world (\<lambda>c. ([], None)) (\<lambda>c. Inl unavailable))\<lparr>imaging := closed_stdout_pil\<rparr>)
        ''outputs/a_0.png'' [] (Some ''logo.png'') (Some ''0909 123 456'') []
       = (Some (Exn ValueError ''I/O operation on closed file.''), [MakeDirs ''outputs''])"
  by code_simp

text \<open>
  Claim C1, amended. Whatever exception the body of the \<^verbatim>\<open>try\<close> ends with (the bytes do not
  decode, the conversion, the logo block, the label or the encoder raises), for every
  input, logo path and label, the function returns the input bytes unchanged after
  printing the warning, provided that \<^verbatim>\<open>print\<close> does not raise; when the body ends without an
  exception, its PNG is returned. The only exception that can leave the function is the one
  the handler's \<^verbatim>\<open>print\<close> raises, and it leaves in place of the bytes.
\<close>

theorem add_logo_and_text_returns_input:
  "(\<forall>e out. composite_try P d logo phone = (Inl e, out) \<and> print_overlay_failed P e = None \<longrightarrow>
        add_logo_and_text P d logo phone = (Inr d, out @ [WarnOverlayFailed e]))
   \<and> (\<forall>png out. composite_try P d logo phone = (Inr png, out) \<longrightarrow>
        add_logo_and_text P d logo phone = (Inr png, out))
   \<and> ((\<forall>e. print_overlay_failed P e = None) \<longrightarrow>
        (\<exists>b out. add_logo_and_text P d logo phone = (Inr b, out)
           \<and> (b = d \<or> fst (composite_try P d logo phone) = Inr b)))
   \<and> (\<forall>e'. fst (add_logo_and_text P d logo phone) = Inl e' \<longrightarrow>
        (\<exists>e. fst (composite_try P d logo phone) = Inl e \<and> print_overlay_failed P e = Some e'))
   \<and> (\<forall>e out e'. composite_try P d logo phone = (Inl e, out) \<and> print_overlay_failed P e = Some e' \<longrightarrow>
        add_logo_and_text P d logo phone = (Inl e', out))
   \<and> (\<forall>e. image_open_bytes P d = Inl e \<and> print_overlay_failed P e = None \<longrightarrow>
          add_logo_and_text P d logo phone = (Inr d, [WarnOverlayFailed e]))
   \<and> (\<forall>img0 e. image_open_bytes P d = Inr img0 \<and> convert_rgba P img0 = Inl e
          \<and> print_overlay_failed P e = None \<longrightarrow>
          add_logo_and_text P d logo phone = (Inr d, [WarnOverlayFailed e]))
   \<and> (\<forall>img0 img e out.
          image_open_bytes P d = Inr img0 \<and> convert_rgba P img0 = Inr img
          \<and> logo_step P img logo = (Inl e, out) \<and> print_overlay_failed P e = None \<longrightarrow>
          add_logo_and_text P d logo phone = (Inr d, out @ [WarnOverlayFailed e]))
   \<and> (\<forall>img0 img img1 lp ll out e.
          image_open_bytes P d = Inr img0 \<and> convert_rgba P img0 = Inr img
          \<and> logo_step P img logo = (Inr (img1, lp, ll), out)
          \<and> label_step P img1 lp ll phone = Inl e \<and> print_overlay_failed P e = None \<longrightarrow>
          add_logo_and_text P d logo phone = (Inr d, out @ [WarnOverlayFailed e]))
   \<and> (\<forall>img0 img img1 lp ll out img2 e.
          image_open_bytes P d = Inr img0 \<and> convert_rgba P img0 = Inr img
          \<and> logo_step P img logo = (Inr (img1, lp, ll), out)
          \<and> label_step P img1 lp ll phone = Inr img2
          \<and> save_png_rgb P img2 = Inl e \<and> print_overlay_failed P e = None \<longrightarrow>
          add_logo_and_text P d logo phone = (Inr d, out @ [WarnOverlayFailed e]))
   \<and> (\<forall>p e img0 img.
          logo = Some p \<and> p \<noteq> [] \<and> image_open_bytes P d = Inr img0 \<and> convert_rgba P img0 = Inr img
          \<and> image_open_path P p = Inl e \<and> exn_class_of e \<noteq> FileNotFoundError
          \<and> print_overlay_failed P e = None \<longrightarrow>
          add_logo_and_text P d logo phone = (Inr d, [WarnOverlayFailed e]))"
proof (intro conjI allI impI)
  fix e out
  assume "composite_try P d logo phone = (Inl e, out) \<and> print_overlay_failed P e = None"
  then show "add_logo_and_text P d logo phone = (Inr d, out @ [WarnOverlayFailed e])"
    by (simp add: add_logo_and_text_def)
next
  fix png out
  assume "composite_try P d logo phone = (Inr png, out)"
  then show "add_logo_and_text P d logo phone = (Inr png, out)"
    by (simp add: add_logo_and_text_def)
next
  assume "\<forall>e. print_overlay_failed P e = None"
  then show "\<exists>b out. add_logo_and_text P d logo phone = (Inr b, out)
           \<and> (b = d \<or> fst (composite_try P d logo phone) = Inr b)"
    by (cases "composite_try P d logo phone")
       (auto simp: add_logo_and_text_def split: sum.splits)
next
  fix e'
  assume "fst (add_logo_and_text P d logo phone) = Inl e'"
  then show "\<exists>e. fst (composite_try P d logo phone) = Inl e \<and> print_overlay_failed P e = Some e'"
    by (cases "composite_try P d logo phone")
       (auto simp: add_logo_and_text_def split: sum.splits option.splits)
next
  fix e out e'
  assume "composite_try P d logo phone = (Inl e, out) \<and> print_overlay_failed P e = Some e'"
  then show "add_logo_and_text P d logo phone = (Inl e', out)"
    by (simp add: add_logo_and_text_def)
next
  fix p e img0 img
  assume h: "logo = Some p \<and> p \<noteq> [] \<and> image_open_bytes P d = Inr img0 \<and> convert_rgba P img0 = Inr img
          \<and> image_open_path P p = Inl e \<and> exn_class_of e \<noteq> FileNotFoundError
          \<and> print_overlay_failed P e = None"
  then have "logo_step P img logo = (Inl e, [])"
    by (simp add: logo_step_def place_logo_def)
  with h show "add_logo_and_text P d logo phone = (Inr d, [WarnOverlayFailed e])"
    by (simp add: add_logo_and_text_def composite_try_def)
qed (simp_all add: add_logo_and_text_def composite_try_def)

theorem add_logo_and_text_returns_input_witness:
  "image_open_bytes demo_pil [] = Inl (Exn OtherError ''cannot identify image file'')
   \<and> print_overlay_failed demo_pil (Exn OtherError ''cannot identify image file'') = None
   \<and> add_logo_and_text demo_pil [] (Some ''logo.png'') (Some ''0909 123 456'')
       = (Inr [], [WarnOverlayFailed (Exn OtherError ''cannot identify image file'')])
   \<and> image_open_path demo_pil ''broken.png'' = Inl (Exn OtherError ''cannot identify image file'')
   \<and> exn_class_of (Exn OtherError ''cannot identify image file'') \<noteq> FileNotFoundError
   \<and> add_logo_and_text demo_pil [1, 2, 3] (Some ''broken.png'') (Some ''0909 123 456'')
       = (Inr [1, 2, 3], [WarnOverlayFailed (Exn OtherError ''cannot identify image file'')])
   \<and> (\<forall>e. print_overlay_failed demo_pil e = None)
   \<and> (\<exists>b out. add_logo_and_text demo_pil [1, 2, 3] (Some ''logo.png'') (Some ''0909 123 456'') = (Inr b, out))
   \<and> composite_try closed_stdout_pil [] (Some ''logo.png'') (Some ''0909 123 456'')
       = (Inl (Exn OtherError ''cannot identify image file''), [])
   \<and> print_overlay_failed closed_stdout_pil (Exn OtherError ''cannot identify image file'')
       = Some (Exn ValueError ''I/O operation on closed file.'')
   \<and> add_logo_and_text closed_stdout_pil [] (Some ''logo.png'') (Some ''0909 123 456'')
       = (Inl (Exn ValueError ''I/O operation on closed file.''), [])"
proof -
  let ?e = "Exn OtherError ''cannot identify image file''"
  let ?v = "Exn ValueError ''I/O operation on closed file.''"
  have h: "image_open_bytes demo_pil [] = Inl ?e"
    by (simp add: demo_pil_def)
  have pr: "\<forall>e. print_overlay_failed demo_pil e = None"
    by (simp add: demo_pil_def)
  have pe: "print_overlay_failed demo_pil ?e = None"
    by (simp add: demo_pil_def)
  have b: "image_open_path demo_pil ''broken.png'' = Inl ?e"
    by (simp add: demo_pil_def)
  have c: "exn_class_of ?e \<noteq> FileNotFoundError"
    by simp
  have n: "''broken.png'' \<noteq> []" by simp
  have o: "image_open_bytes demo_pil [1, 2, 3] = Inr (1024, 1024, [])"
    by (simp add: demo_pil_def)
  have k: "convert_rgba demo_pil (1024, 1024, []) = Inr (1024, 1024, [])"
    by (simp add: demo_pil_def)
  have ct: "composite_try closed_stdout_pil [] (Some ''logo.png'') (Some ''0909 123 456'') = (Inl ?e, [])"
    by (simp add: composite_try_def closed_stdout_pil_def demo_pil_def)
  have pc: "print_overlay_failed closed_stdout_pil ?e = Some ?v"
    by (simp add: closed_stdout_pil_def)
  note th = add_logo_and_text_returns_input[of demo_pil]
  have 1: "add_logo_and_text demo_pil [] (Some ''logo.png'') (Some ''0909 123 456'')
       = (Inr [], [WarnOverlayFailed ?e])"
    by (rule th[THEN conjunct2, THEN conjunct2, THEN conjunct2, THEN conjunct2, THEN conjunct2,
          THEN conjunct1, rule_format, OF conjI[OF h pe]])
  have 2: "add_logo_and_text demo_pil [1, 2, 3] (Some ''broken.png'') (Some ''0909 123 456'')
       = (Inr [1, 2, 3], [WarnOverlayFailed ?e])"
    by (rule th[THEN conjunct2, THEN conjunct2, THEN conjunct2, THEN conjunct2, THEN conjunct2,
          THEN conjunct2, THEN conjunct2, THEN conjunct2, THEN conjunct2, THEN conjunct2, rule_format,
          OF conjI[OF refl conjI[OF n conjI[OF o conjI[OF k conjI[OF b conjI[OF c pe]]]]]]])
  from th[of "[1, 2, 3]" "Some ''logo.png''" "Some ''0909 123 456''",
          THEN conjunct2, THEN conjunct2, THEN conjunct1, THEN mp, OF pr]
  have 3: "\<exists>b out. add_logo_and_text demo_pil [1, 2, 3] (Some ''logo.png'') (Some ''0909 123 456'') = (Inr b, out)"
    by blast
  have 4: "add_logo_and_text closed_stdout_pil [] (Some ''logo.png'') (Some ''0909 123 456'') = (Inl ?v, [])"
    by (rule add_logo_and_text_returns_input[THEN conjunct2, THEN conjunct2, THEN conjunct2, THEN conjunct2,
          THEN conjunct1, rule_format, OF conjI[OF ct pc]])
  show ?thesis
    by (intro conjI) (rule h pe 1 b c 2 pr 3 ct pc 4)+
qed

section \<open>A missing logo file\<close>






section \<open>What one attempt and the retry loops do to the trace\<close>

text \<open>
  Observations distribute over the concatenation of traces. Saving, compositing and the
  scan of the parts never sleep and never call the provider; one attempt calls it once.
\<close>

lemma sleeps_append: "sleeps (a @ b) = sleeps a @ sleeps b"
  by (induction a rule: sleeps.induct) simp_all

lemma provider_calls_append: "provider_calls (a @ b) = provider_calls a + provider_calls b"
  by (induction a rule: provider_calls.induct) simp_all

lemma writes_append: "writes (a @ b) = writes a @ writes b"
  by (induction a rule: writes.induct) simp_all

lemma prints_append: "prints (a @ b) = prints a @ prints b"
  by (induction a rule: prints.induct) simp_all

lemma sleeps_map_Print: "sleeps (map Print ls) = []"
  by (induction ls) simp_all

lemma provider_calls_map_Print: "provider_calls (map Print ls) = 0"
  by (induction ls) simp_all

lemma writes_map_Print: "writes (map Print ls) = []"
  by (induction ls) simp_all

lemmas trace_simps =
  sleeps_append provider_calls_append writes_append prints_append
  sleeps_map_Print provider_calls_map_Print writes_map_Print

lemma save_image_quiet:
  assumes "save_image W d logo phone dir tr = (r, tr1)"
  shows "sleeps tr1 = sleeps tr \<and> provider_calls tr1 = provider_calls tr"
  using assms
  by (auto simp: save_image_def Let_def trace_simps split: option.splits sum.splits)

lemma response_loop_quiet:
  "response_loop W C ps tr = (r, tr1) \<Longrightarrow>
     sleeps tr1 = sleeps tr \<and> provider_calls tr1 = provider_calls tr"
proof (induction ps)
  case Nil
  then show ?case by simp
next
  case (Cons p ps)
  then show ?case
    by (auto split: attr.splits option.splits prod.splits sum.splits if_splits
             dest: save_image_quiet)
qed

lemma response_attempt_quiet:
  assumes "response_attempt W C p tr = (r, tr1)"
  shows "sleeps tr1 = sleeps tr \<and> provider_calls tr1 = Suc (provider_calls tr)"
  using assms
  by (auto simp: response_attempt_def Let_def trace_simps split: sum.splits
           dest: response_loop_quiet)


lemma generate_image_from_run:
  "generate_image_from W C p mr a tr = (r, tr') \<Longrightarrow>
   \<exists>n. a + n \<le> max (nat mr) a
     \<and> provider_calls tr' = provider_calls tr + Suc n
     \<and> sleeps tr' = sleeps tr @ map (\<lambda>k. min 8 (2 ^ k)) [Suc a ..< Suc a + n]
     \<and> ((\<exists>tr0. response_attempt W C p tr0 = (Inr r, tr'))
        \<or> (a + n = max (nat mr) a
           \<and> (\<exists>tr0 e. response_attempt W C p tr0 = (Inl e, tr')
                \<and> r = failure_result (''Failed after '' @ str_int mr @ '' retries: '' @ exn_str e))))"
proof (induction W C p mr a tr arbitrary: r tr' rule: generate_image_from.induct)
  case (1 W C p mr a tr)
  obtain res tr1 where att: "response_attempt W C p tr = (res, tr1)"
    by (cases "response_attempt W C p tr") auto
  note q = response_attempt_quiet[OF att]
  show ?case
  proof (cases res)
    case (Inr r0)
    with att "1.prems" have "r = r0" "tr' = tr1"
      by (simp_all add: generate_image_from.simps)
    with att Inr q show ?thesis
      by (intro exI[of _ 0]) auto
  next
    case (Inl e)
    show ?thesis
    proof (cases "int (a + 1) > mr")
      case True
      with att Inl "1.prems"
      have "r = failure_result (''Failed after '' @ str_int mr @ '' retries: '' @ exn_str e)" "tr' = tr1"
        by (simp_all add: generate_image_from.simps)
      moreover have "max (nat mr) a = a" using True by simp
      ultimately show ?thesis using att Inl q
        by (intro exI[of _ 0]) auto
    next
      case False
      let ?w = "min 8 (2 ^ (a + 1)) :: int"
      let ?tr2 = "tr1 @ [Print (WarnRetry e ?w (a + 1) mr), Sleep ?w]"
      have rec: "generate_image_from W C p mr (a + 1) ?tr2 = (r, tr')"
        using att Inl False "1.prems" by (simp add: generate_image_from.simps[of W C p mr a tr])
      from "1.IH"[OF att[symmetric] Inl False rec]
      obtain n where n:
        "a + 1 + n \<le> max (nat mr) (a + 1)"
        "provider_calls tr' = provider_calls ?tr2 + Suc n"
        "sleeps tr' = sleeps ?tr2 @ map (\<lambda>k. min 8 (2 ^ k)) [Suc (a + 1) ..< Suc (a + 1) + n]"
        "(\<exists>tr0. response_attempt W C p tr0 = (Inr r, tr'))
          \<or> (a + 1 + n = max (nat mr) (a + 1)
             \<and> (\<exists>tr0 e. response_attempt W C p tr0 = (Inl e, tr')
                  \<and> r = failure_result (''Failed after '' @ str_int mr @ '' retries: '' @ exn_str e)))"
        by blast
      have m: "max (nat mr) (a + 1) = max (nat mr) a" using False by simp
      have c: "provider_calls tr' = provider_calls tr + Suc (Suc n)"
        using n(2) q by (simp add: trace_simps)
      have "[Suc a ..< Suc a + Suc n] = Suc a # [Suc (a + 1) ..< Suc (a + 1) + n]"
        by (simp add: upt_rec)
      then have s: "sleeps tr' = sleeps tr @ map (\<lambda>k. min 8 (2 ^ k)) [Suc a ..< Suc a + Suc n]"
        using n(3) q by (simp add: trace_simps)
      show ?thesis
        using n(1) n(4) m c s by (intro exI[of _ "Suc n"]) auto
    qed
  qed
qed


lemma save_binary_file_quiet:
  assumes "save_binary_file W file_path d logo phone tr = (r, tr1)"
  shows "sleeps tr1 = sleeps tr \<and> provider_calls tr1 = provider_calls tr"
  using assms
  by (auto simp: save_binary_file_def Let_def trace_simps split: option.splits sum.splits)

lemma stream_parts_quiet:
  "stream_parts W C slug ps idx tr = (r, idx1, tr1) \<Longrightarrow>
     sleeps tr1 = sleeps tr \<and> provider_calls tr1 = provider_calls tr"
proof (induction ps arbitrary: idx tr)
  case Nil
  then show ?case by simp
next
  case (Cons p ps)
  show ?case
  proof (cases "image_payload p")
    case None
    with Cons.prems Cons.IH show ?thesis
      by (auto simp: trace_simps split: option.splits if_splits)
  next
    case (Some pl)
    obtain d mime where pl: "pl = (d, mime)" by (cases pl)
    let ?path = "payload_file_path (cfg_out_dir C)
                   (payload_file_name (mime_table W) (cfg_out_prefix C) slug idx mime)"
    obtain r0 tr0 where sv:
      "save_binary_file W ?path d (cfg_logo_path C) (cfg_phone_number C) tr = (r0, tr0)"
      by (cases "save_binary_file W ?path d (cfg_logo_path C) (cfg_phone_number C) tr") auto
    note q = save_binary_file_quiet[OF sv]
    show ?thesis
    proof (cases r0)
      case None
      with Cons.prems Some pl sv Cons.IH q show ?thesis
        by (auto simp: Let_def trace_simps split: option.splits if_splits)
    next
      case (Some e)
      with Cons.prems \<open>image_payload p = Some pl\<close> pl sv q show ?thesis
        by (auto simp: Let_def)
    qed
  qed
qed

lemma stream_chunks_quiet:
  "stream_chunks W C slug chs idx tr = (r, idx1, tr1) \<Longrightarrow>
     sleeps tr1 = sleeps tr \<and> provider_calls tr1 = provider_calls tr"
proof (induction chs arbitrary: idx tr)
  case Nil
  then show ?case by simp
next
  case (Cons ch chs)
  obtain r0 i0 tr0 where sp: "stream_parts W C slug (chunk_parts ch) idx tr = (r0, i0, tr0)"
    by (cases "stream_parts W C slug (chunk_parts ch) idx tr") auto
  note q = stream_parts_quiet[OF sp]
  show ?case
  proof (cases r0)
    case None
    with Cons.prems sp have "stream_chunks W C slug chs i0 tr0 = (r, idx1, tr1)" by simp
    from Cons.IH[OF this] q show ?thesis by simp
  next
    case (Some e)
    with Cons.prems sp q show ?thesis by simp
  qed
qed

lemma stream_attempt_quiet:
  assumes "stream_attempt W C p tr = (r, tr1)"
  shows "sleeps tr1 = sleeps tr \<and> provider_calls tr1 = Suc (provider_calls tr)"
proof -
  let ?c = "build_contents p (cfg_system_prompt C)"
  let ?tr0 = "tr @ [ProviderCall (cfg_model C) ?c]"
  let ?st = "generate_content_stream W tr (cfg_model C) ?c"
  obtain r0 i0 tr2 where sc: "stream_chunks W C (slugify p) (fst ?st) 0 ?tr0 = (r0, i0, tr2)"
    by (cases "stream_chunks W C (slugify p) (fst ?st) 0 ?tr0") auto
  from stream_chunks_quiet[OF sc]
  have q: "sleeps tr2 = sleeps tr" "provider_calls tr2 = Suc (provider_calls tr)"
    by (simp_all add: trace_simps)
  from assms sc have "tr1 = tr2 \<or> tr1 = tr2 @ [Print (InfoNoImageParts p)]"
    by (auto simp: stream_attempt_def Let_def split: option.splits if_splits)
  with q show ?thesis by (auto simp: trace_simps)
qed

lemma generate_one_prompt_from_run:
  "generate_one_prompt_from W C p mr a tr = tr' \<Longrightarrow>
   \<exists>n. a + n \<le> max (nat mr) a
     \<and> provider_calls tr' = provider_calls tr + Suc n
     \<and> sleeps tr' = sleeps tr @ map (\<lambda>k. min 8 (2 ^ k)) [Suc a ..< Suc a + n]
     \<and> ((\<exists>tr0. stream_attempt W C p tr0 = (None, tr'))
        \<or> (a + n = max (nat mr) a
           \<and> (\<exists>tr0 tr1 e. stream_attempt W C p tr0 = (Some e, tr1)
                \<and> tr' = tr1 @ [Print (ErrorFailed mr p e)])))"
proof (induction W C p mr a tr arbitrary: tr' rule: generate_one_prompt_from.induct)
  case (1 W C p mr a tr)
  obtain res tr1 where att: "stream_attempt W C p tr = (res, tr1)"
    by (cases "stream_attempt W C p tr") auto
  note q = stream_attempt_quiet[OF att]
  show ?case
  proof (cases res)
    case None
    with att "1.prems" have "tr' = tr1"
      by (simp add: generate_one_prompt_from.simps)
    with att None q show ?thesis
      by (intro exI[of _ 0]) auto
  next
    case (Some e)
    show ?thesis
    proof (cases "int (a + 1) > mr")
      case True
      with att Some "1.prems"
      have "tr' = tr1 @ [Print (ErrorFailed mr p e)]"
        by (simp add: generate_one_prompt_from.simps)
      moreover have "max (nat mr) a = a" using True by simp
      ultimately show ?thesis using att Some q
        by (intro exI[of _ 0]) (auto simp: trace_simps)
    next
      case False
      let ?w = "min 8 (2 ^ (a + 1)) :: int"
      let ?tr2 = "tr1 @ [Print (WarnRetry e ?w (a + 1) mr), Sleep ?w]"
      have rec: "generate_one_prompt_from W C p mr (a + 1) ?tr2 = tr'"
        using att Some False "1.prems" by (simp add: generate_one_prompt_from.simps[of W C p mr a tr])
      from "1.IH"[OF att[symmetric] Some False rec]
      obtain n where n:
        "a + 1 + n \<le> max (nat mr) (a + 1)"
        "provider_calls tr' = provider_calls ?tr2 + Suc n"
        "sleeps tr' = sleeps ?tr2 @ map (\<lambda>k. min 8 (2 ^ k)) [Suc (a + 1) ..< Suc (a + 1) + n]"
        "(\<exists>tr0. stream_attempt W C p tr0 = (None, tr'))
          \<or> (a + 1 + n = max (nat mr) (a + 1)
             \<and> (\<exists>tr0 tr1 e. stream_attempt W C p tr0 = (Some e, tr1)
                  \<and> tr' = tr1 @ [Print (ErrorFailed mr p e)]))"
        by blast
      have m: "max (nat mr) (a + 1) = max (nat mr) a" using False by simp
      have c: "provider_calls tr' = provider_calls tr + Suc (Suc n)"
        using n(2) q by (simp add: trace_simps)
      have "[Suc a ..< Suc a + Suc n] = Suc a # [Suc (a + 1) ..< Suc (a + 1) + n]"
        by (simp add: upt_rec)
      then have s: "sleeps tr' = sleeps tr @ map (\<lambda>k. min 8 (2 ^ k)) [Suc a ..< Suc a + Suc n]"
        using n(3) q by (simp add: trace_simps)
      show ?thesis
        using n(1) n(4) m c s by (intro exI[of _ "Suc n"]) auto
    qed
  qed
qed

text \<open>
  The same for the order of calls and sleeps: one attempt adds one call to the schedule, and
  a run of either loop adds the schedule of its retries.
\<close>

lemma schedule_append: "schedule (a @ b) = schedule a @ schedule b"
  by (induction a rule: schedule.induct) simp_all

lemma schedule_map_Print: "schedule (map Print ls) = []"
  by (induction ls) simp_all

lemma provider_calls_schedule: "provider_calls tr = length (filter (\<lambda>x. x = None) (schedule tr))"
  by (induction tr rule: schedule.induct) simp_all

lemma sleeps_schedule: "sleeps tr = List.map_filter id (schedule tr)"
  by (induction tr rule: schedule.induct) (simp_all add: map_filter_simps)

lemma retry_schedule_calls: "length (filter (\<lambda>x. x = None) (retry_schedule a n)) = Suc n"
proof -
  have "\<And>ks. length (filter (\<lambda>x. x = None) (concat (map (\<lambda>k. [Some (min 8 (2 ^ k) :: int), None]) ks)))
           = length ks"
    by (induct_tac ks) simp_all
  then show ?thesis by (simp add: retry_schedule_def)
qed

lemma retry_schedule_0: "retry_schedule a 0 = [None]"
  by (simp add: retry_schedule_def)

lemma retry_schedule_Suc:
  "retry_schedule a (Suc n) = [None, Some (min 8 (2 ^ Suc a))] @ retry_schedule (Suc a) n"
proof -
  have "[Suc a ..< Suc a + Suc n] = Suc a # [Suc (Suc a) ..< Suc (Suc a) + n]"
    by (simp add: upt_rec)
  then show ?thesis by (simp add: retry_schedule_def)
qed

lemma save_image_schedule:
  assumes "save_image W d logo phone dir tr = (r, tr1)"
  shows "schedule tr1 = schedule tr"
  using assms
  by (auto simp: save_image_def Let_def schedule_append schedule_map_Print split: option.splits sum.splits)

lemma response_loop_schedule:
  "response_loop W C ps tr = (r, tr1) \<Longrightarrow> schedule tr1 = schedule tr"
proof (induction ps)
  case Nil
  then show ?case by simp
next
  case (Cons p ps)
  then show ?case
    by (auto split: attr.splits option.splits prod.splits sum.splits if_splits
             dest: save_image_schedule)
qed

lemma response_attempt_schedule:
  assumes "response_attempt W C p tr = (r, tr1)"
  shows "schedule tr1 = schedule tr @ [None]"
  using assms
  by (auto simp: response_attempt_def Let_def schedule_append split: sum.splits
           dest: response_loop_schedule)

lemma generate_image_from_schedule:
  "generate_image_from W C p mr a tr = (r, tr') \<Longrightarrow>
   \<exists>n. schedule tr' = schedule tr @ retry_schedule a n"
proof (induction W C p mr a tr arbitrary: r tr' rule: generate_image_from.induct)
  case (1 W C p mr a tr)
  obtain res tr1 where att: "response_attempt W C p tr = (res, tr1)"
    by (cases "response_attempt W C p tr") auto
  note q = response_attempt_schedule[OF att]
  show ?case
  proof (cases res)
    case (Inr r0)
    with att "1.prems" have "tr' = tr1"
      by (simp add: generate_image_from.simps)
    with q show ?thesis
      by (intro exI[of _ 0]) (simp add: retry_schedule_0)
  next
    case (Inl e)
    show ?thesis
    proof (cases "int (a + 1) > mr")
      case True
      with att Inl "1.prems" have "tr' = tr1"
        by (simp add: generate_image_from.simps)
      with q show ?thesis
        by (intro exI[of _ 0]) (simp add: retry_schedule_0)
    next
      case False
      let ?w = "min 8 (2 ^ (a + 1)) :: int"
      let ?tr2 = "tr1 @ [Print (WarnRetry e ?w (a + 1) mr), Sleep ?w]"
      have rec: "generate_image_from W C p mr (a + 1) ?tr2 = (r, tr')"
        using att Inl False "1.prems" by (simp add: generate_image_from.simps[of W C p mr a tr])
      from "1.IH"[OF att[symmetric] Inl False rec]
      obtain n where n: "schedule tr' = schedule ?tr2 @ retry_schedule (a + 1) n"
        by blast
      have "schedule ?tr2 = schedule tr @ [None, Some ?w]"
        using q by (simp add: schedule_append)
      with n have "schedule tr' = schedule tr @ retry_schedule a (Suc n)"
        by (simp add: retry_schedule_Suc)
      then show ?thesis by blast
    qed
  qed
qed

lemma save_binary_file_schedule:
  assumes "save_binary_file W file_path d logo phone tr = (r, tr1)"
  shows "schedule tr1 = schedule tr"
  using assms
  by (auto simp: save_binary_file_def Let_def schedule_append schedule_map_Print split: option.splits sum.splits)

lemma stream_parts_schedule:
  "stream_parts W C slug ps idx tr = (r, idx1, tr1) \<Longrightarrow> schedule tr1 = schedule tr"
proof (induction ps arbitrary: idx tr)
  case Nil
  then show ?case by simp
next
  case (Cons p ps)
  show ?case
  proof (cases "image_payload p")
    case None
    with Cons.prems Cons.IH show ?thesis
      by (auto simp: schedule_append split: option.splits if_splits)
  next
    case (Some pl)
    obtain d mime where pl: "pl = (d, mime)" by (cases pl)
    let ?path = "payload_file_path (cfg_out_dir C)
                   (payload_file_name (mime_table W) (cfg_out_prefix C) slug idx mime)"
    obtain r0 tr0 where sv:
      "save_binary_file W ?path d (cfg_logo_path C) (cfg_phone_number C) tr = (r0, tr0)"
      by (cases "save_binary_file W ?path d (cfg_logo_path C) (cfg_phone_number C) tr") auto
    note q = save_binary_file_schedule[OF sv]
    show ?thesis
    proof (cases r0)
      case None
      with Cons.prems Some pl sv Cons.IH q show ?thesis
        by (auto simp: Let_def schedule_append split: option.splits if_splits)
    next
      case (Some e)
      with Cons.prems \<open>image_payload p = Some pl\<close> pl sv q show ?thesis
        by (auto simp: Let_def)
    qed
  qed
qed

lemma stream_chunks_schedule:
  "stream_chunks W C slug chs idx tr = (r, idx1, tr1) \<Longrightarrow> schedule tr1 = schedule tr"
proof (induction chs arbitrary: idx tr)
  case Nil
  then show ?case by simp
next
  case (Cons ch chs)
  obtain r0 i0 tr0 where sp: "stream_parts W C slug (chunk_parts ch) idx tr = (r0, i0, tr0)"
    by (cases "stream_parts W C slug (chunk_parts ch) idx tr") auto
  note q = stream_parts_schedule[OF sp]
  show ?case
  proof (cases r0)
    case None
    with Cons.prems sp have "stream_chunks W C slug chs i0 tr0 = (r, idx1, tr1)" by simp
    from Cons.IH[OF this] q show ?thesis by simp
  next
    case (Some e)
    with Cons.prems sp q show ?thesis by simp
  qed
qed

lemma stream_attempt_schedule:
  assumes "stream_attempt W C p tr = (r, tr1)"
  shows "schedule tr1 = schedule tr @ [None]"
proof -
  let ?c = "build_contents p (cfg_system_prompt C)"
  let ?tr0 = "tr @ [ProviderCall (cfg_model C) ?c]"
  let ?st = "generate_content_stream W tr (cfg_model C) ?c"
  obtain r0 i0 tr2 where sc: "stream_chunks W C (slugify p) (fst ?st) 0 ?tr0 = (r0, i0, tr2)"
    by (cases "stream_chunks W C (slugify p) (fst ?st) 0 ?tr0") auto
  from stream_chunks_schedule[OF sc]
  have q: "schedule tr2 = schedule tr @ [None]"
    by (simp add: schedule_append)
  from assms sc have "tr1 = tr2 \<or> tr1 = tr2 @ [Print (InfoNoImageParts p)]"
    by (auto simp: stream_attempt_def Let_def split: option.splits if_splits)
  with q show ?thesis by (auto simp: schedule_append)
qed

lemma generate_one_prompt_from_schedule:
  "generate_one_prompt_from W C p mr a tr = tr' \<Longrightarrow>
   \<exists>n. schedule tr' = schedule tr @ retry_schedule a n"
proof (induction W C p mr a tr arbitrary: tr' rule: generate_one_prompt_from.induct)
  case (1 W C p mr a tr)
  obtain res tr1 where att: "stream_attempt W C p tr = (res, tr1)"
    by (cases "stream_attempt W C p tr") auto
  note q = stream_attempt_schedule[OF att]
  show ?case
  proof (cases res)
    case None
    with att "1.prems" have "tr' = tr1"
      by (simp add: generate_one_prompt_from.simps)
    with q show ?thesis
      by (intro exI[of _ 0]) (simp add: retry_schedule_0)
  next
    case (Some e)
    show ?thesis
    proof (cases "int (a + 1) > mr")
      case True
      with att Some "1.prems"
      have "tr' = tr1 @ [Print (ErrorFailed mr p e)]"
        by (simp add: generate_one_prompt_from.simps)
      with q show ?thesis
        by (intro exI[of _ 0]) (simp add: retry_schedule_0 schedule_append)
    next
      case False
      let ?w = "min 8 (2 ^ (a + 1)) :: int"
      let ?tr2 = "tr1 @ [Print (WarnRetry e ?w (a + 1) mr), Sleep ?w]"
      have rec: "generate_one_prompt_from W C p mr (a + 1) ?tr2 = tr'"
        using att Some False "1.prems" by (simp add: generate_one_prompt_from.simps[of W C p mr a tr])
      from "1.IH"[OF att[symmetric] Some False rec]
      obtain n where n: "schedule tr' = schedule ?tr2 @ retry_schedule (a + 1) n"
        by blast
      have "schedule ?tr2 = schedule tr @ [None, Some ?w]"
        using q by (simp add: schedule_append)
      with n have "schedule tr' = schedule tr @ retry_schedule a (Suc n)"
        by (simp add: retry_schedule_Suc)
      then show ?thesis by blast
    qed
  qed
qed

lemma same_retries:
  assumes "schedule tr' = schedule tr @ retry_schedule a m"
      and "provider_calls tr' = provider_calls tr + Suc n"
  shows "m = n"
proof -
  have "provider_calls tr' = provider_calls tr + Suc m"
    using assms(1) by (simp add: provider_calls_schedule retry_schedule_calls)
  with assms(2) show ?thesis by simp
qed

text \<open>
  The delays \<open>min 8 (2 ^ k)\<close> are non-decreasing in \<open>k\<close> and never above 8.
\<close>

lemma backoff_sorted: "sorted (map (\<lambda>k. min 8 (2 ^ k) :: int) [m ..< n])"
proof -
  have "sorted_wrt (\<lambda>x y. min 8 (2 ^ x) \<le> (min 8 (2 ^ y) :: int)) [m ..< n]"
    by (rule sorted_wrt_mono_rel[OF _ sorted_upt[of m n]])
       (auto intro: power_increasing min.coboundedI2)
  then show ?thesis by (simp add: sorted_map)
qed

lemma backoff_capped: "list_all (\<lambda>d. d \<le> (8 :: int)) (map (\<lambda>k. min 8 (2 ^ k)) ks)"
  by (simp add: list_all_iff)





section \<open>The retry loop\<close>

text \<open>
  Claim C2, as stated: after exhausting its retries the loop returns a failure result whose
  message contains the last error's message. The service loop \<^verbatim>\<open>generate_image\<close> does. The batch
  loop \<^verbatim>\<open>generate_one_prompt\<close>, which the claim cites too, has no \<^verbatim>\<open>return\<close> statement: when the
  budget is exhausted it prints a line and leaves the loop with \<^verbatim>\<open>break\<close>, so its caller gets
  nothing. With a provider that always fails and a budget of 3, all that is left of the
  batch loop's run is its trace, which ends with the printed line; the service loop returns
  the failure result after the same calls and sleeps.
\<close>

theorem batch_failure_is_only_printed:
  "generate_one_prompt (failing_world unavailable) demo_config ''Red shoe'' 3 []
     = [ProviderCall ''gemini-2.0-flash-preview-image-generation'' ''Red shoe'',
        Print (WarnRetry unavailable 2 1 3), Sleep 2,
        ProviderCall ''gemini-2.0-flash-preview-image-generation'' ''Red shoe'',
        Print (WarnRetry unavailable 4 2 3), Sleep 4,
        ProviderCall ''gemini-2.0-flash-preview-image-generation'' ''Red shoe'',
        Print (WarnRetry unavailable 8 3 3), Sleep 8,
        ProviderCall ''gemini-2.0-flash-preview-image-generation'' ''Red shoe'',
        Print (ErrorFailed 3 ''Red shoe'' unavailable)]
   \<and> generate_image (failing_world unavailable) demo_config ''Red shoe'' 3 []
     = (failure_result ''Failed after 3 retries: 503 UNAVAILABLE'',
        [ProviderCall ''gemini-2.0-flash-preview-image-generation'' ''Red shoe'',
         Print (WarnRetry unavailable 2 1 3), Sleep 2,
         ProviderCall ''gemini-2.0-flash-preview-image-generation'' ''Red shoe'',
         Print (WarnRetry unavailable 4 2 3), Sleep 4,
         ProviderCall ''gemini-2.0-flash-preview-image-generation'' ''Red shoe'',
         Print (WarnRetry unavailable 8 3 3), Sleep 8,
         ProviderCall ''gemini-2.0-flash-preview-image-generation'' ''Red shoe''])"
  by code_simp

text \<open>
  Claim C2, amended. From the first call on, each loop (service mode \<^verbatim>\<open>generate_image\<close>, batch
  mode \<^verbatim>\<open>generate_one_prompt\<close>) calls the provider \<open>n + 1\<close> times with \<open>n \<le> max_retries\<close> retries, and
  sleeps \<open>min 8 (2 ^ k)\<close> before the \<open>k\<close>-th retry, \<open>k = 1, ..., n\<close>, each sleep between the failed
  call and the retry: the delays 2, 4, 8, 8, ... are non-decreasing and at most 8. Either
  the last attempt succeeded, or the budget is exhausted (\<open>n = max_retries\<close>) and the failure
  carries the message of the exception of the last attempt: the service returns the result
  \<open>Failed after max_retries retries: message\<close>; the batch returns nothing and prints the
  failure, with the exception, as its last line.
\<close>

theorem retry_backoff:
  assumes "generate_image W C p mr tr = (r, tr1)"
      and "generate_one_prompt W C p mr tr = tr2"
  shows "(\<exists>n. n \<le> nat mr
            \<and> provider_calls tr1 = provider_calls tr + Suc n
            \<and> sleeps tr1 = sleeps tr @ map (\<lambda>k. min 8 (2 ^ k)) [1 ..< Suc n]
            \<and> schedule tr1 = schedule tr @ retry_schedule 0 n
            \<and> ((\<exists>tr0. response_attempt W C p tr0 = (Inr r, tr1))
               \<or> (n = nat mr
                  \<and> (\<exists>tr0 e. response_attempt W C p tr0 = (Inl e, tr1)
                       \<and> r = failure_result (''Failed after '' @ str_int mr @ '' retries: '' @ exn_str e)))))
       \<and> (\<exists>n. n \<le> nat mr
            \<and> provider_calls tr2 = provider_calls tr + Suc n
            \<and> sleeps tr2 = sleeps tr @ map (\<lambda>k. min 8 (2 ^ k)) [1 ..< Suc n]
            \<and> schedule tr2 = schedule tr @ retry_schedule 0 n
            \<and> ((\<exists>tr0. stream_attempt W C p tr0 = (None, tr2))
               \<or> (n = nat mr
                  \<and> (\<exists>tr0 tr3 e. stream_attempt W C p tr0 = (Some e, tr3)
                       \<and> tr2 = tr3 @ [Print (ErrorFailed mr p e)]))))
       \<and> (\<forall>n. sorted (map (\<lambda>k. min 8 (2 ^ k) :: int) [1 ..< Suc n])
              \<and> list_all (\<lambda>d. d \<le> 8) (map (\<lambda>k. min 8 (2 ^ k) :: int) [1 ..< Suc n]))
       \<and> map (\<lambda>k. min 8 (2 ^ k) :: int) [1 ..< 6] = [2, 4, 8, 8, 8]
       \<and> retry_schedule 0 3 = [None, Some 2, None, Some 4, None, Some 8, None]"
proof -
  have g: "generate_image_from W C p mr 0 tr = (r, tr1)"
    using assms(1) by (simp add: generate_image_def)
  have "\<exists>n. n \<le> nat mr
            \<and> provider_calls tr1 = provider_calls tr + Suc n
            \<and> sleeps tr1 = sleeps tr @ map (\<lambda>k. min 8 (2 ^ k)) [1 ..< Suc n]
            \<and> ((\<exists>tr0. response_attempt W C p tr0 = (Inr r, tr1))
               \<or> (n = nat mr
                  \<and> (\<exists>tr0 e. response_attempt W C p tr0 = (Inl e, tr1)
                       \<and> r = failure_result (''Failed after '' @ str_int mr @ '' retries: '' @ exn_str e))))"
    using generate_image_from_run[OF g] by simp
  then obtain n where n:
    "n \<le> nat mr"
    "provider_calls tr1 = provider_calls tr + Suc n"
    "sleeps tr1 = sleeps tr @ map (\<lambda>k. min 8 (2 ^ k)) [1 ..< Suc n]"
    "(\<exists>tr0. response_attempt W C p tr0 = (Inr r, tr1))
       \<or> (n = nat mr
          \<and> (\<exists>tr0 e. response_attempt W C p tr0 = (Inl e, tr1)
               \<and> r = failure_result (''Failed after '' @ str_int mr @ '' retries: '' @ exn_str e)))"
    by blast
  from generate_image_from_schedule[OF g] obtain m where
    "schedule tr1 = schedule tr @ retry_schedule 0 m" by blast
  with n(2) have sn: "schedule tr1 = schedule tr @ retry_schedule 0 n"
    using same_retries by blast
  have a: "\<exists>n. n \<le> nat mr
            \<and> provider_calls tr1 = provider_calls tr + Suc n
            \<and> sleeps tr1 = sleeps tr @ map (\<lambda>k. min 8 (2 ^ k)) [1 ..< Suc n]
            \<and> schedule tr1 = schedule tr @ retry_schedule 0 n
            \<and> ((\<exists>tr0. response_attempt W C p tr0 = (Inr r, tr1))
               \<or> (n = nat mr
                  \<and> (\<exists>tr0 e. response_attempt W C p tr0 = (Inl e, tr1)
                       \<and> r = failure_result (''Failed after '' @ str_int mr @ '' retries: '' @ exn_str e))))"
    by (rule exI[where x=n]) (intro conjI n sn)
  have h: "generate_one_prompt_from W C p mr 0 tr = tr2"
    using assms(2) by (simp add: generate_one_prompt_def)
  have "\<exists>n. n \<le> nat mr
            \<and> provider_calls tr2 = provider_calls tr + Suc n
            \<and> sleeps tr2 = sleeps tr @ map (\<lambda>k. min 8 (2 ^ k)) [1 ..< Suc n]
            \<and> ((\<exists>tr0. stream_attempt W C p tr0 = (None, tr2))
               \<or> (n = nat mr
                  \<and> (\<exists>tr0 tr3 e. stream_attempt W C p tr0 = (Some e, tr3)
                       \<and> tr2 = tr3 @ [Print (ErrorFailed mr p e)])))"
    using generate_one_prompt_from_run[OF h] by simp
  then obtain j where j:
    "j \<le> nat mr"
    "provider_calls tr2 = provider_calls tr + Suc j"
    "sleeps tr2 = sleeps tr @ map (\<lambda>k. min 8 (2 ^ k)) [1 ..< Suc j]"
    "(\<exists>tr0. stream_attempt W C p tr0 = (None, tr2))
       \<or> (j = nat mr
          \<and> (\<exists>tr0 tr3 e. stream_attempt W C p tr0 = (Some e, tr3)
               \<and> tr2 = tr3 @ [Print (ErrorFailed mr p e)]))"
    by blast
  from generate_one_prompt_from_schedule[OF h] obtain m' where
    "schedule tr2 = schedule tr @ retry_schedule 0 m'" by blast
  with j(2) have sj: "schedule tr2 = schedule tr @ retry_schedule 0 j"
    using same_retries by blast
  have b: "\<exists>n. n \<le> nat mr
            \<and> provider_calls tr2 = provider_calls tr + Suc n
            \<and> sleeps tr2 = sleeps tr @ map (\<lambda>k. min 8 (2 ^ k)) [1 ..< Suc n]
            \<and> schedule tr2 = schedule tr @ retry_schedule 0 n
            \<and> ((\<exists>tr0. stream_attempt W C p tr0 = (None, tr2))
               \<or> (n = nat mr
                  \<and> (\<exists>tr0 tr3 e. stream_attempt W C p tr0 = (Some e, tr3)
                       \<and> tr2 = tr3 @ [Print (ErrorFailed mr p e)])))"
    by (rule exI[where x=j]) (intro conjI j sj)
  have c: "map (\<lambda>k. min 8 (2 ^ k) :: int) [1 ..< 6] = [2, 4, 8, 8, 8]"
    by (simp add: upt_rec)
  have d: "retry_schedule 0 3 = [None, Some 2, None, Some 4, None, Some 8, None]"
    by (simp add: retry_schedule_def upt_rec)
  have e: "\<forall>n. sorted (map (\<lambda>k. min 8 (2 ^ k) :: int) [1 ..< Suc n])
              \<and> list_all (\<lambda>d. d \<le> 8) (map (\<lambda>k. min 8 (2 ^ k) :: int) [1 ..< Suc n])"
    using backoff_sorted backoff_capped by blast
  show ?thesis
    by (intro conjI) (rule a b e c d)+
qed

theorem retry_backoff_witness:
  "fst (generate_image (failing_world unavailable) demo_config ''Red shoe on white background'' 3 [])
     = failure_result ''Failed after 3 retries: 503 UNAVAILABLE''
   \<and> provider_calls (snd (generate_image (failing_world unavailable) demo_config ''Red shoe on white background'' 3 [])) = 4
   \<and> sleeps (snd (generate_image (failing_world unavailable) demo_config ''Red shoe on white background'' 3 [])) = [2, 4, 8]
   \<and> schedule (snd (generate_image (failing_world unavailable) demo_config ''Red shoe on white background'' 3 []))
       = [None, Some 2, None, Some 4, None, Some 8, None]
   \<and> provider_calls (generate_one_prompt (failing_world unavailable) demo_config ''Red shoe on white background'' 3 []) = 4
   \<and> sleeps (generate_one_prompt (failing_world unavailable) demo_config ''Red shoe on white background'' 3 []) = [2, 4, 8]
   \<and> schedule (generate_one_prompt (failing_world unavailable) demo_config ''Red shoe on white background'' 3 [])
       = [None, Some 2, None, Some 4, None, Some 8, None]
   \<and> last (generate_one_prompt (failing_world unavailable) demo_config ''Red shoe on white background'' 3 [])
       = Print (ErrorFailed 3 ''Red shoe on white background'' unavailable)"
proof -
  let ?G = "generate_image (failing_world unavailable) demo_config ''Red shoe on white background'' 3 []"
  let ?B = "generate_one_prompt (failing_world unavailable) demo_config ''Red shoe on white background'' 3 []"
  have g: "?G = (fst ?G, snd ?G)" by simp
  have ev: "fst ?G = failure_result ''Failed after 3 retries: 503 UNAVAILABLE''"
    "last ?B = Print (ErrorFailed 3 ''Red shoe on white background'' unavailable)"
    "provider_calls (snd ?G) = 4" "sleeps (snd ?G) = [2, 4, 8]"
    "provider_calls ?B = 4" "sleeps ?B = [2, 4, 8]"
    by code_simp+
  note th = retry_backoff[OF g refl]
  from th[THEN conjunct1] obtain n where n:
    "provider_calls (snd ?G) = provider_calls [] + Suc n"
    "schedule (snd ?G) = schedule [] @ retry_schedule 0 n"
    by blast
  from n(1) ev(3) have "n = 3" by simp
  with n(2) th[THEN conjunct2, THEN conjunct2, THEN conjunct2, THEN conjunct2]
  have sg: "schedule (snd ?G) = [None, Some 2, None, Some 4, None, Some 8, None]"
    by simp
  from th[THEN conjunct2, THEN conjunct1] obtain j where j:
    "provider_calls ?B = provider_calls [] + Suc j"
    "schedule ?B = schedule [] @ retry_schedule 0 j"
    by blast
  from j(1) ev(5) have "j = 3" by simp
  with j(2) th[THEN conjunct2, THEN conjunct2, THEN conjunct2, THEN conjunct2]
  have sb: "schedule ?B = [None, Some 2, None, Some 4, None, Some 8, None]"
    by simp
  show ?thesis
    by (intro conjI) (rule ev sg sb)+
qed

section \<open>Authentication errors\<close>




section \<open>The result of the service\<close>

lemma path_join_nonempty: "b \<noteq> [] \<Longrightarrow> path_join a b \<noteq> []"
  by (simp add: path_join_def)

lemma save_image_path_nonempty:
  "save_image W d logo phone dir tr = (Inr fp, tr1) \<Longrightarrow> fp \<noteq> []"
  by (auto simp: save_image_def Let_def path_join_nonempty split: option.splits sum.splits)

lemma response_loop_result:
  "response_loop W C ps tr = (Inr r, tr1) \<Longrightarrow>
     r = failure_result ''No image generated in response''
     \<or> (\<exists>fp url. fp \<noteq> [] \<and> r = success_result fp url)"
proof (induction ps)
  case Nil
  then show ?case by simp
next
  case (Cons p ps)
  then show ?case
    by (auto split: attr.splits option.splits prod.splits sum.splits if_splits
             dest: save_image_path_nonempty)
qed

lemma response_attempt_result:
  "response_attempt W C p tr = (Inr r, tr1) \<Longrightarrow>
     r = failure_result ''No image generated in response''
     \<or> (\<exists>fp url. fp \<noteq> [] \<and> r = success_result fp url)"
  by (auto simp: response_attempt_def Let_def split: sum.splits dest: response_loop_result)

lemma success_result_shape:
  "fp \<noteq> [] \<Longrightarrow> is_success_result (success_result fp url)"
  "\<not> is_failure_result (success_result fp url)"
  by (simp_all add: is_success_result_def is_failure_result_def success_result_def)

lemma failure_result_shape:
  "msg \<noteq> [] \<Longrightarrow> is_failure_result (failure_result msg)"
  "\<not> is_success_result (failure_result msg)"
  by (simp_all add: is_success_result_def is_failure_result_def failure_result_def)

text \<open>
  Claim C4. Every result of the service-mode \<^verbatim>\<open>generate_image\<close> is either a success with a
  non-empty \<open>image_path\<close> (and no \<open>error\<close>) or a failure with a non-empty \<open>error\<close> (and no
  \<open>image_path\<close>): one of the two, never both, never neither.
\<close>

theorem generation_result_invariant:
  "(is_success_result (fst (generate_image W C p mr tr))
      \<or> is_failure_result (fst (generate_image W C p mr tr)))
   \<and> \<not> (is_success_result (fst (generate_image W C p mr tr))
         \<and> is_failure_result (fst (generate_image W C p mr tr)))"
proof -
  obtain r tr' where g: "generate_image_from W C p mr 0 tr = (r, tr')"
    by (cases "generate_image_from W C p mr 0 tr") auto
  from generate_image_from_run[OF g]
  consider (ok) tr0 where "response_attempt W C p tr0 = (Inr r, tr')"
    | (exhausted) e where "r = failure_result (''Failed after '' @ str_int mr @ '' retries: '' @ exn_str e)"
    by blast
  then have "(is_success_result r \<or> is_failure_result r) \<and> \<not> (is_success_result r \<and> is_failure_result r)"
  proof cases
    case ok
    from response_attempt_result[OF ok] show ?thesis
      using success_result_shape failure_result_shape by fastforce
  next
    case exhausted
    then show ?thesis using failure_result_shape by simp
  qed
  with g show ?thesis by (simp add: generate_image_def)
qed

theorem generation_result_invariant_witness:
  "is_success_result
     (fst (generate_image (demo_world (\<lambda>c. ([], None)) (\<lambda>c. Inr (response_of [image_part [1, 2, 3] (Some ''image/png'')])))
            demo_config ''Red shoe on white background'' 3 []))
   \<and> is_failure_result
     (fst (generate_image (failing_world unavailable) demo_config ''Red shoe on white background'' 3 []))
   \<and> is_failure_result
     (fst (generate_image (demo_world (\<lambda>c. ([], None)) (\<lambda>c. Inr (response_of [])))
            demo_config ''Red shoe on white background'' 3 []))"
proof -
  have ev: "\<not> is_failure_result
     (fst (generate_image (demo_world (\<lambda>c. ([], None)) (\<lambda>c. Inr (response_of [image_part [1, 2, 3] (Some ''image/png'')])))
            demo_config ''Red shoe on white background'' 3 []))"
    "\<not> is_success_result
     (fst (generate_image (failing_world unavailable) demo_config ''Red shoe on white background'' 3 []))"
    "\<not> is_success_result
     (fst (generate_image (demo_world (\<lambda>c. ([], None)) (\<lambda>c. Inr (response_of [])))
            demo_config ''Red shoe on white background'' 3 []))"
    by code_simp+
  from ev generation_result_invariant[of "demo_world (\<lambda>c. ([], None)) (\<lambda>c. Inr (response_of [image_part [1, 2, 3] (Some ''image/png'')]))" demo_config "''Red shoe on white background''" 3 "[]"]
    generation_result_invariant[of "failing_world unavailable" demo_config "''Red shoe on white background''" 3 "[]"]
    generation_result_invariant[of "demo_world (\<lambda>c. ([], None)) (\<lambda>c. Inr (response_of []))" demo_config "''Red shoe on white background''" 3 "[]"]
  show ?thesis by blast
qed

section \<open>The first image of a response\<close>

text \<open>
  The scan of the parts returns at the first part that holds image bytes: the parts after
  it are never looked at, and one attempt writes at most one file.
\<close>

lemma response_loop_stops_at_first_image:
  "image_payload p \<noteq> None \<Longrightarrow>
     response_loop W C (pre @ p # rest) tr = response_loop W C (pre @ [p]) tr"
proof (induction pre)
  case Nil
  then show ?case
    by (auto simp: image_payload_def split: attr.splits option.splits prod.splits sum.splits if_splits)
next
  case (Cons q pre)
  then show ?case
    by (auto split: attr.splits option.splits prod.splits sum.splits)
qed

lemma save_image_one_write:
  "save_image W d logo phone dir tr = (r, tr1) \<Longrightarrow> length (writes tr1) \<le> Suc (length (writes tr))"
  by (auto simp: save_image_def Let_def trace_simps split: option.splits sum.splits)

lemma response_loop_one_write:
  "response_loop W C ps tr = (r, tr1) \<Longrightarrow> length (writes tr1) \<le> Suc (length (writes tr))"
proof (induction ps)
  case Nil
  then show ?case by simp
next
  case (Cons p ps)
  then show ?case
    by (auto split: attr.splits option.splits prod.splits sum.splits if_splits
             dest: save_image_one_write)
qed

text \<open>
  Claim C9. For every response with one or more image payloads, the service saves and
  returns the first image payload, and no further one. The code reads
  \<^verbatim>\<open>part.inline_data.data\<close> after \<^verbatim>\<open>hasattr(part, 'inline_data')\<close> only: on a part of text, whose
  \<^verbatim>\<open>inline_data\<close> is \<^verbatim>\<open>None\<close>, this raises \<^verbatim>\<open>AttributeError\<close>. With a response made of a text part
  and then an image part, every attempt ends so: after 4 calls of the provider the result is
  a failure and no file is written. The batch mode reads the same parts with
  \<^verbatim>\<open>getattr(part, "inline_data", None)\<close> and saves the image.
\<close>

theorem text_part_before_image:
  "fst (generate_image (demo_world (\<lambda>c. ([], None)) (\<lambda>c. Inr text_then_image))
          demo_config ''Red shoe on white background'' 3 [])
     = failure_result
         (''Failed after 3 retries: '' @ quoted ''NoneType'' @ '' object has no attribute '' @ quoted ''data'')
   \<and> writes (snd (generate_image (demo_world (\<lambda>c. ([], None)) (\<lambda>c. Inr text_then_image))
          demo_config ''Red shoe on white background'' 3 [])) = []
   \<and> provider_calls (snd (generate_image (demo_world (\<lambda>c. ([], None)) (\<lambda>c. Inr text_then_image))
          demo_config ''Red shoe on white background'' 3 [])) = 4
   \<and> writes (generate_one_prompt (demo_world (\<lambda>c. ([text_then_image], None)) (\<lambda>c. Inr text_then_image))
          demo_config ''Red shoe on white background'' 3 [])
     = [(''outputs/iphone_campaign_red-shoe-on-white-background_0.png'', [1, 2, 3])]"
  by code_simp

section \<open>The shared conversation\<close>

text \<open>
  Claim C10. The \<^verbatim>\<open>/chat\<close> endpoint appends the user's message to the shared \<^verbatim>\<open>chat_log\<close> and
  then calls the provider with that list. When the call raises, the endpoint returns the
  error and the user's message stays in \<^verbatim>\<open>chat_log\<close>: nothing is restored. On an answer, the
  assistant's message is appended too. So \<^verbatim>\<open>chat_log\<close> is strictly longer after every call.
  The form handler of \<^verbatim>\<open>chat.py\<close> changes \<^verbatim>\<open>chat_log\<close> in the same way; there the exception
  leaves the handler.
\<close>

theorem chat_log_keeps_user_message:
  assumes "chat client msg (chat_log, tr) = (r, chat_log1, tr1)"
      and "chat_form client msg (chat_log, chat_responses, tr) = (r2, chat_log2, chat_responses2, tr2)"
  shows "(\<forall>e. chat_completions_create client tr (chat_log @ [user_message msg]) = Inl e \<longrightarrow>
            r = [(''error'', JStr (exn_str e))] \<and> chat_log1 = chat_log @ [user_message msg]
            \<and> r2 = Inl e \<and> chat_log2 = chat_log @ [user_message msg])
       \<and> (\<forall>m ms. chat_completions_create client tr (chat_log @ [user_message msg]) = Inr (m # ms) \<longrightarrow>
            r = [(''response'', jstr_opt (msg_content m))]
            \<and> chat_log1 = chat_log @ [user_message msg, assistant_message (msg_content m)]
            \<and> chat_log2 = chat_log1)
       \<and> prefix (chat_log @ [user_message msg]) chat_log1
       \<and> prefix (chat_log @ [user_message msg]) chat_log2
       \<and> length chat_log < length chat_log1
       \<and> length chat_log < length chat_log2
       \<and> tr1 = tr @ [ProviderCall ''gpt-4o'' msg]"
  using assms
  by (auto simp: chat_def chat_form_def Let_def split: sum.splits list.splits)

theorem chat_log_keeps_user_message_witness:
  "chat_completions_create (failing_client unavailable) [] ([system_message] @ [user_message ''draw a cat''])
     = Inl unavailable
   \<and> chat (failing_client unavailable) ''draw a cat'' ([system_message], [])
       = ([(''error'', JStr ''503 UNAVAILABLE'')], [system_message, user_message ''draw a cat''],
          [ProviderCall ''gpt-4o'' ''draw a cat''])
   \<and> chat_form (failing_client unavailable) ''draw a cat'' ([system_message], [], [])
       = (Inl unavailable, [system_message, user_message ''draw a cat''], [Some ''draw a cat''],
          [ProviderCall ''gpt-4o'' ''draw a cat''])"
proof -
  have a: "chat_completions_create (failing_client unavailable) [] ([system_message] @ [user_message ''draw a cat''])
     = Inl unavailable"
    by (simp add: failing_client_def)
  have b: "chat (failing_client unavailable) ''draw a cat'' ([system_message], [])
       = ([(''error'', JStr ''503 UNAVAILABLE'')], [system_message, user_message ''draw a cat''],
          [ProviderCall ''gpt-4o'' ''draw a cat''])"
    by (simp add: chat_def failing_client_def unavailable_def Let_def)
  have c: "chat_form (failing_client unavailable) ''draw a cat'' ([system_message], [], [])
       = (Inl unavailable, [system_message, user_message ''draw a cat''], [Some ''draw a cat''],
          [ProviderCall ''gpt-4o'' ''draw a cat''])"
    by (simp add: chat_form_def failing_client_def Let_def)
  from chat_log_keeps_user_message[OF b c] a b c show ?thesis by blast
qed

section \<open>The batch\<close>


















section \<open>The files of a prompt\<close>




















end
